theory Spec2Isabelle
  imports Main
begin

section \<open>URL items, handler results and the browser history\<close>

text \<open>
  Modelled from the spec: the enum \<open>URLSource\<close> is declared in \<open>shared/URLItem\<close>, which is
  not among the sources. The renderer uses its members \<open>USER\<close>, \<open>PAGE\<close> and \<open>APP\<close>;
  \<open>HANDLER_REDIRECT\<close> is the fourth provenance tag of the spec's data model
  (\<open>Source: enum {User, Page, App, HandlerRedirect}\<close>).
\<close>

datatype URLSource = USER | PAGE | APP | HANDLER_REDIRECT

text \<open>The interface \<open>IURLItem\<close>, with the fields the renderer reads.\<close>

record URLItem =
  DoLoad :: bool
  OriginalURL :: string
  URL :: string
  Source :: URLSource

text \<open>
  The numeric constants of the enum \<open>HandleURL\<close> (module \<open>URLHandler\<close>, not among the
  sources) are a parameter of the model. A handler reports a plain \<open>number\<close>.
\<close>

record HandleURL =
  ERROR :: int
  NONE :: int
  CONTINUE :: int
  STOP :: int

text \<open>
  What a call of \<open>handler.handleURL(url, source, callback)\<close> does, as far as the renderer
  can observe it: the handler calls the callback with a result and an optional redirect
  URL, or throws before doing so, or returns without ever calling back.
\<close>

datatype HandlerReply = Callback int "string option" | Throws | NoCallback

datatype exn = TypeError | HandlerError | ReadError

text \<open>
  Modelled from the spec: the classes \<open>BrowserHistory\<close> and \<open>BrowserHistoryItem\<close> are not
  among the sources. Items live in a store (a list addressed by index), since the
  renderer keeps a reference to an item and follows its \<open>Previous\<close> and \<open>Next\<close> links.
\<close>

record BrowserHistoryItem =
  ItemURL :: string
  Previous :: "nat option"
  Next :: "nat option"

record BrowserHistory =
  Items :: "BrowserHistoryItem list"
  Root :: nat
  Current :: nat
  Size :: nat

definition itemAt :: "BrowserHistory \<Rightarrow> nat \<Rightarrow> BrowserHistoryItem option" where
  "itemAt h a = (if a < length (Items h) then Some (Items h ! a) else None)"

text \<open>Modelled from the spec: \<open>new BrowserHistory(blankPage)\<close>, a single root entry.\<close>

definition newBrowserHistory :: "string \<Rightarrow> BrowserHistory" where
  "newBrowserHistory rootURL =
     \<lparr>Items = [\<lparr>ItemURL = rootURL, Previous = None, Next = None\<rparr>],
      Root = 0, Current = 0, Size = 1\<rparr>"

text \<open>
  Modelled from the spec: \<open>addOrUpdateItem(url)\<close> returns the current entry unchanged
  when it has this URL; otherwise it links a new entry behind the current one (whose old
  forward chain is thereby dropped), moves the cursor to it and increments \<open>Size\<close>.
\<close>

definition addOrUpdateItem :: "BrowserHistory \<Rightarrow> string \<Rightarrow> BrowserHistory \<times> nat" where
  "addOrUpdateItem h url =
     (case itemAt h (Current h) of
        None \<Rightarrow> (h, Current h)
      | Some cur \<Rightarrow>
          if url = ItemURL cur then (h, Current h)
          else
            let new = length (Items h) in
            (h\<lparr>Items := (Items h)[Current h := cur\<lparr>Next := Some new\<rparr>]
                    @ [\<lparr>ItemURL = url, Previous = Some (Current h), Next = None\<rparr>],
               Current := new,
               Size := Size h + 1\<rparr>, new))"

section \<open>The renderer application\<close>

text \<open>
  Console output. Each constructor of \<open>Msg\<close> is one template string of the source, with
  the values it interpolates; the handler itself stands for its class name.
\<close>

datatype Level = ConsoleError | ConsoleLog | ConsoleWarn | ConsoleInfo

datatype 'h Msg =
    NoHandlersConfigured
  | HandlerLoadError string
  | ResultERROR 'h string
  | ResultNONE 'h string string
  | ResultCONTINUE 'h string string
  | ResultSTOP 'h
  | ResultUnknown int 'h string
  | Redirected 'h string string
  | CallError 'h string
  | PermissionRequested string bool

text \<open>
  An entry of \<open>settings.URLHandlers\<close>. Modelled from the spec: the flags \<open>Load\<close> and
  \<open>Active\<close> of a handler descriptor; the renderer itself reads \<open>Source\<close> (here
  \<open>SourceModule\<close>), \<open>ClassName\<close> and \<open>Config\<close> only.
\<close>

record URLHandlerEntry =
  Load :: bool
  Active :: bool
  SourceModule :: string
  ClassName :: string
  Config :: string

text \<open>
  The fields of \<open>CRendererApplication\<close> and of the widgets it owns. \<open>handleURLCalls\<close>
  records every call of a handler's \<open>handleURL\<close>; \<open>timers\<close> holds the callbacks scheduled by
  \<open>window.setTimeout\<close>; \<open>uncaught\<close> the exceptions that escaped a timer callback.
\<close>

record 'h Renderer =
  settingsURLHandlers :: "URLHandlerEntry list"
  settingsPermissions :: "string list"
  appInfoName :: string
  URLHandlers :: "'h list"
  currentURLHandler :: "'h option"
  history :: BrowserHistory
  currentHistoryItem :: "nat option"
  currentURLItem :: "URLItem option"
  errorPage :: string
  webViewSrc :: "string option"
  windowTitle :: string
  spinnerVisible :: bool
  goBackButtonDisabled :: bool
  goForwardButtonDisabled :: bool
  urlFieldValue :: string
  permissionRequestHandlerSet :: bool
  console :: "(Level \<times> 'h Msg) list"
  handleURLCalls :: "('h \<times> string \<times> URLSource) list"
  timers :: "(int \<times> string option) list"
  uncaught :: "exn list"

definition blankPage :: string where
  "blankPage = ''_blank''"

text \<open>\<open>encodeURI\<close> of the empty HTML page: only the angle brackets are escaped.\<close>

definition blankPageContent :: string where
  "blankPageContent =
     ''data:text/html,%3Chtml%3E%3Chead%3E%3C/head%3E%3Cbody%3E%3C/body%3E%3C/html%3E''"

definition consoleWrite :: "Level \<Rightarrow> 'h Msg \<Rightarrow> 'h Renderer \<Rightarrow> 'h Renderer" where
  "consoleWrite l m s = s\<lparr>console := console s @ [(l, m)]\<rparr>"

text \<open>\<open>Array.prototype.indexOf\<close>: the first index of the element, or \<open>-1\<close>.\<close>

fun indexOf :: "'a list \<Rightarrow> 'a \<Rightarrow> int" where
  "indexOf [] x = - 1"
| "indexOf (y # ys) x =
     (if y = x then 0 else (let i = indexOf ys x in if i < 0 then - 1 else i + 1))"

text \<open>\<open>xs[i]\<close>: \<open>undefined\<close> outside the array.\<close>

definition elementAt :: "'a list \<Rightarrow> int \<Rightarrow> 'a option" where
  "elementAt xs i = (if 0 \<le> i \<and> nat i < length xs then Some (xs ! nat i) else None)"

text \<open>A redirect URL counts only when it is truthy: given and not the empty string.\<close>

definition truthyURL :: "string option \<Rightarrow> string option" where
  "truthyURL r = (case r of None \<Rightarrow> None | Some u \<Rightarrow> if u = [] then None else Some u)"

subsection \<open>Loading the handlers\<close>

text \<open>
  \<open>require\<close> and \<open>getURLHandlerByClassName\<close> are parameters: \<open>require\<close> fails or not, the
  factory returns an instance or throws (\<open>None\<close>).
\<close>

definition loadURLHandler ::
  "(string \<Rightarrow> bool) \<Rightarrow> (string \<Rightarrow> string \<Rightarrow> 'h option) \<Rightarrow> URLHandlerEntry
     \<Rightarrow> 'h Renderer \<Rightarrow> 'h Renderer" where
  "loadURLHandler requireOK getURLHandlerByClassName e s =
     (if SourceModule e \<noteq> [] then
        (if requireOK (SourceModule e) then
           (case getURLHandlerByClassName (ClassName e) (Config e) of
              Some classInstance \<Rightarrow> s\<lparr>URLHandlers := URLHandlers s @ [classInstance]\<rparr>
            | None \<Rightarrow> consoleWrite ConsoleError (HandlerLoadError (SourceModule e)) s)
         else consoleWrite ConsoleError (HandlerLoadError (SourceModule e)) s)
      else s)"

fun loadURLHandlersFrom ::
  "(string \<Rightarrow> bool) \<Rightarrow> (string \<Rightarrow> string \<Rightarrow> 'h option) \<Rightarrow> URLHandlerEntry list
     \<Rightarrow> 'h Renderer \<Rightarrow> 'h Renderer" where
  "loadURLHandlersFrom requireOK factory [] s = s"
| "loadURLHandlersFrom requireOK factory (e # es) s =
     loadURLHandlersFrom requireOK factory es (loadURLHandler requireOK factory e s)"

definition loadURLHandlers ::
  "(string \<Rightarrow> bool) \<Rightarrow> (string \<Rightarrow> string \<Rightarrow> 'h option) \<Rightarrow> 'h Renderer \<Rightarrow> 'h Renderer" where
  "loadURLHandlers requireOK factory s =
     loadURLHandlersFrom requireOK factory (settingsURLHandlers s) s"

subsection \<open>Dispatching a URL\<close>

type_synonym 'h behaviour = "'h \<Rightarrow> string \<Rightarrow> URLSource \<Rightarrow> HandlerReply"

text \<open>\<open>handleURLCallback\<close>: schedules \<open>doHandleURLCallback\<close> with the handler's answer.\<close>

definition handleURLCallback :: "int \<Rightarrow> string option \<Rightarrow> 'h Renderer \<Rightarrow> 'h Renderer" where
  "handleURLCallback handleURLResult redirectURL s =
     s\<lparr>timers := timers s @ [(handleURLResult, redirectURL)]\<rparr>"

text \<open>The call \<open>handler.handleURL(url, source, this.handleURLCallback)\<close>.\<close>

definition callHandleURL ::
  "'h behaviour \<Rightarrow> 'h \<Rightarrow> string \<Rightarrow> URLSource \<Rightarrow> 'h Renderer \<Rightarrow> exn option \<times> 'h Renderer" where
  "callHandleURL handleURL h url src s =
     (let s1 = s\<lparr>handleURLCalls := handleURLCalls s @ [(h, url, src)]\<rparr> in
      case handleURL h url src of
        Callback r red \<Rightarrow> (None, handleURLCallback r red s1)
      | Throws \<Rightarrow> (Some HandlerError, s1)
      | NoCallback \<Rightarrow> (None, s1))"

definition loadURL ::
  "'h behaviour \<Rightarrow> URLItem \<Rightarrow> bool \<Rightarrow> 'h Renderer \<Rightarrow> exn option \<times> 'h Renderer" where
  "loadURL handleURL urlItem updateHistory s =
     (case URLHandlers s of
        [] \<Rightarrow> (None, consoleWrite ConsoleWarn NoHandlersConfigured s)
      | h0 # _ \<Rightarrow>
          if OriginalURL urlItem = blankPage then
            (None, s\<lparr>webViewSrc := Some blankPageContent, windowTitle := appInfoName s\<rparr>)
          else
            let s1 = (if updateHistory then
                        (case addOrUpdateItem (history s) (URL urlItem) of
                           (h', item) \<Rightarrow> s\<lparr>history := h', currentHistoryItem := Some item\<rparr>)
                      else s);
                s2 = s1\<lparr>currentURLHandler := Some h0,
                        currentURLItem := Some urlItem,
                        windowTitle := URL urlItem,
                        spinnerVisible := True\<rparr>
            in callHandleURL handleURL h0 (URL urlItem) (Source urlItem) s2)"

text \<open>
  The body of the \<open>try\<close> block of \<open>doHandleURLCallback\<close>. \<open>cur\<close> is the handler whose
  class name was read before the block, \<open>nextHandler\<close> the one found behind it. The result
  is the exception thrown inside the block, if any, with the state reached.
\<close>

definition proceedWithNextHandler ::
  "(string \<Rightarrow> URLSource \<Rightarrow> URLItem) \<Rightarrow> 'h behaviour \<Rightarrow> 'h \<Rightarrow> 'h option \<Rightarrow> string option
     \<Rightarrow> URLItem \<Rightarrow> 'h Renderer \<Rightarrow> exn option \<times> 'h Renderer" where
  "proceedWithNextHandler getURLItem handleURL cur nextHandler redirectURL item s =
     (let s1 = (case truthyURL redirectURL of
                  Some u \<Rightarrow> consoleWrite ConsoleLog (Redirected cur (URL item) u) s
                | None \<Rightarrow> s)
      in case nextHandler of
           Some nh \<Rightarrow>
             let item' = (case truthyURL redirectURL of
                            Some u \<Rightarrow> getURLItem u PAGE
                          | None \<Rightarrow> item);
                 s2 = s1\<lparr>currentURLItem := Some item', currentURLHandler := Some nh\<rparr>
             in callHandleURL handleURL nh (URL item') (Source item') s2
         | None \<Rightarrow> (None, s1\<lparr>permissionRequestHandlerSet := True\<rparr>))"

definition tryBlock ::
  "HandleURL \<Rightarrow> (string \<Rightarrow> URLSource \<Rightarrow> URLItem) \<Rightarrow> 'h behaviour \<Rightarrow> 'h \<Rightarrow> 'h option
     \<Rightarrow> int \<Rightarrow> string option \<Rightarrow> 'h Renderer \<Rightarrow> exn option \<times> 'h Renderer" where
  "tryBlock hu getURLItem handleURL cur nextHandler handleURLResult redirectURL s =
     (let logMsg = (if nextHandler \<noteq> None then ''continuing with next handler''
                    else ''last handler in chain reached'')
      in
      if handleURLResult = ERROR hu then
        (case currentURLItem s of
           None \<Rightarrow> (Some TypeError, s)
         | Some item \<Rightarrow> (None, consoleWrite ConsoleError (ResultERROR cur (URL item)) s))
      else if handleURLResult = NONE hu then
        (case currentURLItem s of
           None \<Rightarrow> (Some TypeError, s)
         | Some item \<Rightarrow>
             proceedWithNextHandler getURLItem handleURL cur nextHandler redirectURL item
               (consoleWrite ConsoleLog (ResultNONE cur (URL item) logMsg) s))
      else if handleURLResult = CONTINUE hu then
        (case currentURLItem s of
           None \<Rightarrow> (Some TypeError, s)
         | Some item \<Rightarrow>
             proceedWithNextHandler getURLItem handleURL cur nextHandler redirectURL item
               (consoleWrite ConsoleLog (ResultCONTINUE cur (URL item) logMsg) s))
      else if handleURLResult = STOP hu then
        (None, consoleWrite ConsoleLog (ResultSTOP cur) s)
      else
        (case currentURLItem s of
           None \<Rightarrow> (Some TypeError, s)
         | Some item \<Rightarrow>
             (None, consoleWrite ConsoleError (ResultUnknown handleURLResult cur (URL item)) s)))"

text \<open>The \<open>catch\<close> block logs the exception; reading the URL of a missing item throws again.\<close>

definition catchBlock :: "'h \<Rightarrow> exn option \<times> 'h Renderer \<Rightarrow> exn option \<times> 'h Renderer" where
  "catchBlock cur r =
     (case r of
        (None, s) \<Rightarrow> (None, s)
      | (Some e, s) \<Rightarrow>
          (case currentURLItem s of
             None \<Rightarrow> (Some TypeError, s)
           | Some item \<Rightarrow> (None, consoleWrite ConsoleError (CallError cur (URL item)) s)))"

text \<open>The \<open>finally\<close> block hides the spinner unless the result is \<open>NONE\<close> or \<open>CONTINUE\<close>.\<close>

definition finallyBlock ::
  "HandleURL \<Rightarrow> int \<Rightarrow> exn option \<times> 'h Renderer \<Rightarrow> exn option \<times> 'h Renderer" where
  "finallyBlock hu handleURLResult r =
     (case r of
        (e, s) \<Rightarrow>
          if handleURLResult \<noteq> NONE hu \<and> handleURLResult \<noteq> CONTINUE hu
          then (e, s\<lparr>spinnerVisible := False\<rparr>)
          else (e, s))"

definition doHandleURLCallback ::
  "HandleURL \<Rightarrow> (string \<Rightarrow> URLSource \<Rightarrow> URLItem) \<Rightarrow> 'h behaviour
     \<Rightarrow> int \<Rightarrow> string option \<Rightarrow> 'h Renderer \<Rightarrow> exn option \<times> 'h Renderer" where
  "doHandleURLCallback hu getURLItem handleURL handleURLResult redirectURL s =
     (case currentURLHandler s of
        None \<Rightarrow> (Some TypeError, s)
      | Some cur \<Rightarrow>
          let nextHandler = elementAt (URLHandlers s) (indexOf (URLHandlers s) cur + 1)
          in finallyBlock hu handleURLResult
               (catchBlock cur
                  (tryBlock hu getURLItem handleURL cur nextHandler
                     handleURLResult redirectURL s)))"

text \<open>
  The event loop runs the scheduled callbacks in order, at most \<open>n\<close> of them. An exception
  that escapes a callback is reported and does not stop the loop.
\<close>

fun runTimers ::
  "HandleURL \<Rightarrow> (string \<Rightarrow> URLSource \<Rightarrow> URLItem) \<Rightarrow> 'h behaviour
     \<Rightarrow> nat \<Rightarrow> 'h Renderer \<Rightarrow> 'h Renderer" where
  "runTimers hu getURLItem handleURL 0 s = s"
| "runTimers hu getURLItem handleURL (Suc n) s =
     (case timers s of
        [] \<Rightarrow> s
      | (r, red) # rest \<Rightarrow>
          (case doHandleURLCallback hu getURLItem handleURL r red (s\<lparr>timers := rest\<rparr>) of
             (None, s') \<Rightarrow> runTimers hu getURLItem handleURL n s'
           | (Some e, s') \<Rightarrow>
               runTimers hu getURLItem handleURL n (s'\<lparr>uncaught := uncaught s' @ [e]\<rparr>)))"

subsection \<open>Back and forward\<close>

text \<open>
  \<open>goBack\<close> and \<open>goForward\<close> differ in the link they follow only; \<open>link\<close> is \<open>Previous\<close> or
  \<open>Next\<close>. Reading a property of a missing item is a \<open>TypeError\<close>.
\<close>

definition goAlong ::
  "(BrowserHistoryItem \<Rightarrow> nat option) \<Rightarrow> (string \<Rightarrow> URLSource \<Rightarrow> URLItem) \<Rightarrow> 'h behaviour
     \<Rightarrow> 'h Renderer \<Rightarrow> exn option \<times> 'h Renderer" where
  "goAlong link getURLItem handleURL s =
     (case currentHistoryItem s of
        None \<Rightarrow> (Some TypeError, s)
      | Some a \<Rightarrow>
          (case itemAt (history s) a of
             None \<Rightarrow> (Some TypeError, s)
           | Some item \<Rightarrow>
               (case link item of
                  None \<Rightarrow> (None, s)
                | Some b \<Rightarrow>
                    let s1 = s\<lparr>currentHistoryItem := Some b\<rparr> in
                    (case itemAt (history s1) b of
                       None \<Rightarrow> (Some TypeError, s1)
                     | Some neighbour \<Rightarrow>
                         loadURL handleURL (getURLItem (ItemURL neighbour) USER) False s1))))"

definition goBack ::
  "(string \<Rightarrow> URLSource \<Rightarrow> URLItem) \<Rightarrow> 'h behaviour \<Rightarrow> 'h Renderer
     \<Rightarrow> exn option \<times> 'h Renderer" where
  "goBack = goAlong Previous"

definition goForward ::
  "(string \<Rightarrow> URLSource \<Rightarrow> URLItem) \<Rightarrow> 'h behaviour \<Rightarrow> 'h Renderer
     \<Rightarrow> exn option \<times> 'h Renderer" where
  "goForward = goAlong Next"

subsection \<open>Permission requests and navigation events\<close>

text \<open>\<open>onPermissionRequest\<close>: the first component is the value passed to \<open>callback\<close>.\<close>

definition onPermissionRequest :: "string \<Rightarrow> 'h Renderer \<Rightarrow> bool \<times> 'h Renderer" where
  "onPermissionRequest permission s =
     (let grant = (indexOf (settingsPermissions s) permission > - 1)
      in (grant, consoleWrite ConsoleInfo (PermissionRequested permission grant) s))"

text \<open>
  The value assigned to \<open>disabled\<close> of a navigation button; \<open>||\<close> evaluates its right
  operand only when the left one is false. A reference returned by the history is never
  \<open>null\<close>; a field that was never assigned is \<open>undefined\<close> (\<open>None\<close>), whose properties
  cannot be read.
\<close>

definition navigationDisabled ::
  "(BrowserHistoryItem \<Rightarrow> nat option) \<Rightarrow> 'h Renderer \<Rightarrow> exn + bool" where
  "navigationDisabled link s =
     (if Size (history s) < 2 then Inr True
      else (case currentHistoryItem s of
              None \<Rightarrow> Inl TypeError
            | Some a \<Rightarrow>
                (case itemAt (history s) a of
                   None \<Rightarrow> Inl TypeError
                 | Some item \<Rightarrow> Inr (link item = None))))"

definition updateNavigationButtons :: "'h Renderer \<Rightarrow> exn option \<times> 'h Renderer" where
  "updateNavigationButtons s =
     (case navigationDisabled Previous s of
        Inl e \<Rightarrow> (Some e, s)
      | Inr b \<Rightarrow>
          let s1 = s\<lparr>goBackButtonDisabled := b\<rparr> in
          (case navigationDisabled Next s1 of
             Inl e \<Rightarrow> (Some e, s1)
           | Inr f \<Rightarrow> (None, s1\<lparr>goForwardButtonDisabled := f\<rparr>)))"

definition onDidNavigate :: "string \<Rightarrow> 'h Renderer \<Rightarrow> exn option \<times> 'h Renderer" where
  "onDidNavigate url s =
     (if url = blankPageContent then updateNavigationButtons (s\<lparr>urlFieldValue := []\<rparr>)
      else if url = errorPage s then
        (case currentURLItem s of
           None \<Rightarrow> (Some TypeError, s)
         | Some item \<Rightarrow> updateNavigationButtons (s\<lparr>urlFieldValue := URL item\<rparr>))
      else updateNavigationButtons (s\<lparr>urlFieldValue := url\<rparr>))"

definition onDidNavigateInPage ::
  "(string \<Rightarrow> URLSource \<Rightarrow> URLItem) \<Rightarrow> string \<Rightarrow> 'h Renderer \<Rightarrow> exn option \<times> 'h Renderer" where
  "onDidNavigateInPage getURLItem url s =
     (case addOrUpdateItem (history s) (URL (getURLItem url PAGE)) of
        (h', item) \<Rightarrow>
          updateNavigationButtons
            (s\<lparr>history := h', currentHistoryItem := Some item, urlFieldValue := url\<rparr>))"

subsection \<open>Construction\<close>

text \<open>
  The fields as the constructor leaves them before it loads the handlers: the spinner
  hidden, both navigation buttons disabled, the history holding the blank page only. The
  window's title at that moment is set outside the renderer, so it is a parameter.
\<close>

definition newRenderer ::
  "URLHandlerEntry list \<Rightarrow> string list \<Rightarrow> string \<Rightarrow> string \<Rightarrow> 'h Renderer" where
  "newRenderer entries permissions name title =
     \<lparr>settingsURLHandlers = entries,
      settingsPermissions = permissions,
      appInfoName = name,
      URLHandlers = [],
      currentURLHandler = None,
      history = newBrowserHistory blankPage,
      currentHistoryItem = None,
      currentURLItem = None,
      errorPage = [],
      webViewSrc = None,
      windowTitle = title,
      spinnerVisible = False,
      goBackButtonDisabled = True,
      goForwardButtonDisabled = True,
      urlFieldValue = [],
      permissionRequestHandlerSet = False,
      console = [],
      handleURLCalls = [],
      timers = [],
      uncaught = []\<rparr>"

section \<open>The settings file\<close>

text \<open>
  \<open>getSettings\<close> of \<open>shared/Settings.ts\<close> works on whatever the JSON file holds, so settings
  are JavaScript values here, not a typed record. Objects are association lists with
  distinct keys; numbers are integers, which is all the settings use.
\<close>

datatype JSValue =
    JUndefined
  | JNull
  | JBool bool
  | JNumber int
  | JString string
  | JArray "JSValue list"
  | JObject "(string \<times> JSValue) list"

text \<open>
  Reading a property: a \<open>TypeError\<close> on \<open>undefined\<close> and \<open>null\<close>, the value or \<open>undefined\<close> on
  an object, \<open>undefined\<close> for the setting names on every other value.
\<close>

definition nullish :: "JSValue \<Rightarrow> bool" where
  "nullish v = (v = JUndefined \<or> v = JNull)"

fun field :: "JSValue \<Rightarrow> string \<Rightarrow> JSValue" where
  "field (JObject kvs) k = (case map_of kvs k of Some v \<Rightarrow> v | None \<Rightarrow> JUndefined)"
| "field v k = JUndefined"

definition getField :: "JSValue \<Rightarrow> string \<Rightarrow> exn + JSValue" where
  "getField v k = (if nullish v then Inl TypeError else Inr (field v k))"

text \<open>Assignment to a property of an object.\<close>

fun assign :: "string \<Rightarrow> JSValue \<Rightarrow> (string \<times> JSValue) list \<Rightarrow> (string \<times> JSValue) list" where
  "assign k v [] = [(k, v)]"
| "assign k v ((k', v') # kvs) = (if k' = k then (k, v) # kvs else (k', v') # assign k v kvs)"

text \<open>
  Strings are sequences of bytes, the UTF-8 form of the JavaScript string. \<open>whiteSpaces\<close>
  lists the white space and line terminator characters that \<open>String.prototype.trim\<close>
  strips, each as its bytes: U+0009 to U+000D, U+0020, U+00A0, U+1680, U+2000 to U+200A,
  U+2028, U+2029, U+202F, U+205F, U+3000 and U+FEFF.
\<close>

definition whiteSpaces :: "string list" where
  "whiteSpaces =
     [[CHR 0x09], [CHR 0x0A], [CHR 0x0B], [CHR 0x0C], [CHR 0x0D], [CHR 0x20],
      [CHR 0xC2, CHR 0xA0],
      [CHR 0xE1, CHR 0x9A, CHR 0x80],
      [CHR 0xE2, CHR 0x80, CHR 0x80], [CHR 0xE2, CHR 0x80, CHR 0x81],
      [CHR 0xE2, CHR 0x80, CHR 0x82], [CHR 0xE2, CHR 0x80, CHR 0x83],
      [CHR 0xE2, CHR 0x80, CHR 0x84], [CHR 0xE2, CHR 0x80, CHR 0x85],
      [CHR 0xE2, CHR 0x80, CHR 0x86], [CHR 0xE2, CHR 0x80, CHR 0x87],
      [CHR 0xE2, CHR 0x80, CHR 0x88], [CHR 0xE2, CHR 0x80, CHR 0x89],
      [CHR 0xE2, CHR 0x80, CHR 0x8A],
      [CHR 0xE2, CHR 0x80, CHR 0xA8], [CHR 0xE2, CHR 0x80, CHR 0xA9],
      [CHR 0xE2, CHR 0x80, CHR 0xAF],
      [CHR 0xE2, CHR 0x81, CHR 0x9F],
      [CHR 0xE3, CHR 0x80, CHR 0x80],
      [CHR 0xEF, CHR 0xBB, CHR 0xBF]]"

text \<open>
  The number of bytes of the character of \<open>ws\<close> that \<open>s\<close> starts with, 0 when it starts with
  none. \<open>trim\<close> strips such characters from the start, and, read backwards, from the end.
\<close>

definition leading :: "string list \<Rightarrow> string \<Rightarrow> nat" where
  "leading ws s =
     (case find (\<lambda>w. take (length w) s = w) ws of None \<Rightarrow> 0 | Some w \<Rightarrow> length w)"

fun stripLeading :: "string list \<Rightarrow> string \<Rightarrow> string" where
  "stripLeading ws [] = []"
| "stripLeading ws (c # cs) =
     (if leading ws (c # cs) = 0 then c # cs
      else stripLeading ws (drop (leading ws (c # cs)) (c # cs)))"

definition trim :: "string \<Rightarrow> string" where
  "trim s = rev (stripLeading (map rev whiteSpaces) (rev (stripLeading whiteSpaces s)))"

text \<open>
  \<open>String.prototype.replace\<close> with a global pattern that matches the literal text \<open>pat\<close> and
  has no capture groups. In the replacement text, \<open>$$\<close> stands for a dollar sign, \<open>$&\<close> for
  the matched text, \<open>$\<close> with a backquote for the text before the match and \<open>$\<close> with a
  quote for the text after it; every other character stands for itself. \<open>preceding\<close> is the
  part of the whole string in front of the current position.
\<close>

fun getSubstitution :: "string \<Rightarrow> string \<Rightarrow> string \<Rightarrow> string \<Rightarrow> string" where
  "getSubstitution matched preceding following [] = []"
| "getSubstitution matched preceding following [c] = [c]"
| "getSubstitution matched preceding following (c # d # rest) =
     (if c = CHR 0x24 \<and> d = CHR 0x24 then CHR 0x24 # getSubstitution matched preceding following rest
      else if c = CHR 0x24 \<and> d = CHR 0x26 then matched @ getSubstitution matched preceding following rest
      else if c = CHR 0x24 \<and> d = CHR 0x60 then preceding @ getSubstitution matched preceding following rest
      else if c = CHR 0x24 \<and> d = CHR 0x27 then following @ getSubstitution matched preceding following rest
      else c # getSubstitution matched preceding following (d # rest))"

fun replaceAllFrom :: "string \<Rightarrow> string \<Rightarrow> string \<Rightarrow> string \<Rightarrow> string" where
  "replaceAllFrom pat rep preceding [] = []"
| "replaceAllFrom pat rep preceding (c # cs) =
     (if pat \<noteq> [] \<and> take (length pat) (c # cs) = pat
      then getSubstitution pat preceding (drop (length pat) (c # cs)) rep
           @ replaceAllFrom pat rep (preceding @ pat) (drop (length pat) (c # cs))
      else c # replaceAllFrom pat rep (preceding @ [c]) cs)"

definition replaceAll :: "string \<Rightarrow> string \<Rightarrow> string \<Rightarrow> string" where
  "replaceAll pat rep s = replaceAllFrom pat rep [] s"

text \<open>
  \<open>getDefaultSettings\<close>. \<open>app.userAgentFallback\<close> is a parameter.
\<close>

definition defaultRequestHandlers :: JSValue where
  "defaultRequestHandlers =
     JArray
      [JObject [(''Load'', JBool False), (''Active'', JBool False),
                (''Source'', JString ''../lib/RequestHandlers/RequestLoggerHandler.js'')],
       JObject [(''Load'', JBool False), (''Active'', JBool False),
                (''Source'', JString ''../lib/RequestHandlers/FilterRequestHandler.js''),
                (''Config'', JObject
                   [(''Filter'', JArray
                       [JString ''^https://github.com(/.*)?'',
                        JString ''^https://github.githubassets.com(/.*)?'',
                        JString (''^https?://(.*'' @ [CHR 0x5C] @ ''.)?heise.de(/.*)?''),
                        JString ''^https://heise.cloudimg.io(/.*)?'',
                        JString ''^<LOAD>$'',
                        JString ''^<BACK>$'',
                        JString ''^<FORWARD>$'',
                        JString ''^<RELOAD>$'',
                        JString ''^data:text/html,.*'',
                        JString ''^bb://.*'']),
                    (''LogAllow'', JBool False),
                    (''LogDeny'', JBool True)])],
       JObject [(''Load'', JBool False), (''Active'', JBool False),
                (''Source'', JString ''../lib/RequestHandlers/RequestHandlerTemplate.js''),
                (''Config'', JObject [(''Log'', JBool True)])],
       JObject [(''Load'', JBool True), (''Active'', JBool True),
                (''Source'', JString ''../lib/RequestHandlers/DefaultRequestHandler.js''),
                (''Config'', JObject [(''Log'', JBool False)])]]"

definition getDefaultSettings :: "string \<Rightarrow> JSValue" where
  "getDefaultSettings userAgentFallback =
     JObject
      [(''Window'', JObject
          [(''Left'', JNumber 10),
           (''Top'', JNumber 10),
           (''LeftTopOfCurrentScreen'', JBool True),
           (''Width'', JNumber 1280),
           (''Height'', JNumber 900),
           (''NewRelativeToCurrent'', JBool True)]),
       (''ShortCuts'', JObject
          [(''Global'', JBool True),
           (''ToggleAddressBar'', JArray [JString ''mod+t'']),
           (''ToggleInternalDevTools'', JArray [JString ''mod+shift+d'']),
           (''ToggleDevTools'', JArray [JString ''mod+d'']),
           (''FocusLocationBar'', JArray [JString ''mod+l'']),
           (''NewWindow'', JArray [JString ''mod+n'']),
           (''InternalReload'', JArray [JString []]),
           (''Reload'', JArray [JString ''mod+r'', JString ''f5'']),
           (''GoBack'', JArray [JString ''ctrl+alt+left'']),
           (''GoForward'', JArray [JString ''ctrl+alt+right'']),
           (''ExitHTMLFullscreen'', JArray [JString ''esc'']),
           (''ToggleWin32Menu'', JArray [JString ''ctrl+h''])]),
       (''RequestHandlers'', defaultRequestHandlers),
       (''LogRequests'', JBool False),
       (''CaptureConsole'', JBool True),
       (''UserAgent'', JString userAgentFallback),
       (''Permissions'', JArray [JString ''fullscreen'']),
       (''AllowPlugins'', JBool False),
       (''AllowPopups'', JBool False),
       (''AllowNewWindows'', JBool True),
       (''ClearTraces'', JBool False),
       (''SingleInstance'', JBool True),
       (''FocusOnNewURL'', JBool True),
       (''DarwinForceFocus'', JBool False),
       (''HardwareAcceleration'', JBool True),
       (''ContentProtection'', JBool False),
       (''AddressBar'', JNumber 2),
       (''Win32MenuState'', JNumber 1),
       (''Homepage'', JString ''bb://home''),
       (''Scheme'', JString ''bb'')]"

text \<open>
  The object literal that \<open>getSettings\<close> builds from the settings read. \<open>normalize\<close> (module
  \<open>Utils\<close>, not among the sources) is a parameter, \<open>homepage\<close> the finished home page.
\<close>

definition normalizedSettings ::
  "(JSValue \<Rightarrow> JSValue \<Rightarrow> JSValue) \<Rightarrow> JSValue \<Rightarrow> JSValue \<Rightarrow> string \<Rightarrow> JSValue" where
  "normalizedSettings utilsNormalize settings userAgent homepage =
     (let window = field settings ''Window''; shortCuts = field settings ''ShortCuts'' in
      JObject
       [(''Window'', JObject
           [(''Left'', utilsNormalize (field window ''Left'') (JNumber 10)),
            (''Top'', utilsNormalize (field window ''Top'') (JNumber 10)),
            (''LeftTopOfCurrentScreen'',
               utilsNormalize (field window ''LeftTopOfCurrentScreen'') (JBool True)),
            (''Width'', utilsNormalize (field window ''Width'') (JNumber 1280)),
            (''Height'', utilsNormalize (field window ''Height'') (JNumber 900)),
            (''NewRelativeToCurrent'',
               utilsNormalize (field window ''NewRelativeToCurrent'') (JBool True))]),
        (''ShortCuts'', JObject
           [(''Global'', utilsNormalize (field shortCuts ''Global'') (JBool True)),
            (''ToggleAddressBar'',
               utilsNormalize (field shortCuts ''ToggleAddressBar'') (JArray [JString ''mod+t''])),
            (''ToggleInternalDevTools'',
               utilsNormalize (field shortCuts ''ToggleInternalDevTools'')
                 (JArray [JString ''mod+shift+d''])),
            (''ToggleDevTools'',
               utilsNormalize (field shortCuts ''ToggleDevTools'') (JArray [JString ''mod+d''])),
            (''FocusLocationBar'',
               utilsNormalize (field shortCuts ''FocusLocationBar'') (JArray [JString ''mod+l''])),
            (''NewWindow'',
               utilsNormalize (field shortCuts ''NewWindow'') (JArray [JString ''mod+n''])),
            (''InternalReload'',
               utilsNormalize (field shortCuts ''InternalReload'') (JArray [JString []])),
            (''Reload'',
               utilsNormalize (field shortCuts ''Reload'') (JArray [JString ''mod+r'', JString ''f5''])),
            (''GoBack'',
               utilsNormalize (field shortCuts ''GoBack'') (JArray [JString ''ctrl+alt+left''])),
            (''GoForward'',
               utilsNormalize (field shortCuts ''GoForward'') (JArray [JString ''ctrl+alt+right''])),
            (''ExitHTMLFullscreen'',
               utilsNormalize (field shortCuts ''ExitHTMLFullscreen'') (JArray [JString ''esc''])),
            (''ToggleWin32Menu'',
               utilsNormalize (field shortCuts ''ToggleWin32Menu'') (JArray [JString ''ctrl+h'']))]),
        (''RequestHandlers'', field settings ''RequestHandlers''),
        (''LogRequests'', utilsNormalize (field settings ''LogRequests'') (JBool False)),
        (''CaptureConsole'', utilsNormalize (field settings ''CaptureConsole'') (JBool True)),
        (''UserAgent'', userAgent),
        (''Permissions'',
           utilsNormalize (field settings ''Permissions'') (JArray [JString ''fullscreen''])),
        (''AllowPlugins'', utilsNormalize (field settings ''AllowPlugins'') (JBool False)),
        (''AllowPopups'', utilsNormalize (field settings ''AllowPopups'') (JBool False)),
        (''AllowNewWindows'', utilsNormalize (field settings ''AllowNewWindows'') (JBool True)),
        (''ClearTraces'', utilsNormalize (field settings ''ClearTraces'') (JBool False)),
        (''SingleInstance'', utilsNormalize (field settings ''SingleInstance'') (JBool True)),
        (''FocusOnNewURL'', utilsNormalize (field settings ''FocusOnNewURL'') (JBool True)),
        (''DarwinForceFocus'', utilsNormalize (field settings ''DarwinForceFocus'') (JBool False)),
        (''HardwareAcceleration'',
           utilsNormalize (field settings ''HardwareAcceleration'') (JBool True)),
        (''ContentProtection'', utilsNormalize (field settings ''ContentProtection'') (JBool False)),
        (''AddressBar'', utilsNormalize (field settings ''AddressBar'') (JNumber 2)),
        (''Win32MenuState'', utilsNormalize (field settings ''Win32MenuState'') (JNumber 1)),
        (''Homepage'', JString homepage),
        (''Scheme'', utilsNormalize (field settings ''Scheme'') (JString ''bb''))])"

text \<open>The last statement: a \<open>Win32MenuState\<close> other than 0, 1 or 2 becomes 1.\<close>

definition fixWin32MenuState :: "JSValue \<Rightarrow> JSValue" where
  "fixWin32MenuState settings =
     (if indexOf [JNumber 0, JNumber 1, JNumber 2] (field settings ''Win32MenuState'') = - 1
      then (case settings of
              JObject kvs \<Rightarrow> JObject (assign ''Win32MenuState'' (JNumber 1) kvs)
            | _ \<Rightarrow> settings)
      else settings)"

text \<open>
  \<open>getSettings\<close>. \<open>requireJSONFile\<close> (module \<open>Utils\<close>) returns the parsed file or throws;
  \<open>appPathPkg\<close> is \<open>APP_INFO.APP_PATH_PKG\<close>. The message written to the error console when
  reading fails is not part of the result and is left out. Every property read that
  fails raises a \<open>TypeError\<close> and nothing is assigned before the object literal is
  complete, so the reads are checked in the order of the source: \<open>settings.UserAgent\<close>,
  the fields of \<open>settings.Window\<close>, those of \<open>settings.ShortCuts\<close>, and \<open>trim\<close> on the
  normalized \<open>Homepage\<close>, which only a string has.
\<close>

definition getSettings ::
  "(string \<Rightarrow> exn + JSValue) \<Rightarrow> (JSValue \<Rightarrow> JSValue \<Rightarrow> JSValue) \<Rightarrow> string \<Rightarrow> string
     \<Rightarrow> string \<Rightarrow> exn + JSValue" where
  "getSettings requireJSONFile utilsNormalize userAgentFallback appPathPkg configFile =
     (case requireJSONFile configFile of
        Inl error \<Rightarrow> Inr (getDefaultSettings userAgentFallback)
      | Inr settings \<Rightarrow>
          (case getField settings ''UserAgent'' of
             Inl e \<Rightarrow> Inl e
           | Inr ua \<Rightarrow>
               let userAgent = (if ua = JString [] then JString userAgentFallback else ua) in
               if nullish (field settings ''Window'') then Inl TypeError
               else if nullish (field settings ''ShortCuts'') then Inl TypeError
               else
                 (case utilsNormalize (field settings ''Homepage'') (JString ''bb://home'') of
                    JString h \<Rightarrow>
                      Inr (fixWin32MenuState
                             (normalizedSettings utilsNormalize settings userAgent
                                (replaceAll ''$APP_PATH$'' appPathPkg (trim h))))
                  | _ \<Rightarrow> Inl TypeError)))"

subsection \<open>The earlier version of the settings module\<close>

text \<open>
  The sources also hold an earlier \<open>getSettings\<close> (the unnamed first part), with fewer
  settings. It reads the file with \<open>readJsonSync\<close> and takes the user agent from
  \<open>navigator\<close>, which may be undefined (\<open>None\<close>); a \<open>UserAgent\<close> that is not a string is
  replaced.
\<close>

definition navigatorUserAgent :: "string option \<Rightarrow> string" where
  "navigatorUserAgent navigator = (case navigator of None \<Rightarrow> [] | Some ua \<Rightarrow> ua)"

definition getDefaultSettings_part_000 :: "string option \<Rightarrow> JSValue" where
  "getDefaultSettings_part_000 navigator =
     JObject
      [(''Window'', JObject
          [(''Left'', JNumber 50),
           (''Top'', JNumber 50),
           (''Width'', JNumber 1024),
           (''Height'', JNumber 768)]),
       (''ShortCuts'', JObject
          [(''Global'', JBool True),
           (''ToggleAddressBar'', JString ''ctrl+alt+a''),
           (''ToggleInternalDevTools'', JString ''ctrl+alt+i''),
           (''ToggleDevTools'', JString ''ctrl+alt+d''),
           (''FocusLocationBar'', JString ''ctrl+alt+l''),
           (''InternalReload'', JString ''ctrl+alt+shift+r''),
           (''Reload'', JString ''ctrl+alt+r''),
           (''GoBack'', JString ''ctrl+alt+left''),
           (''GoForward'', JString ''ctrl+alt+right''),
           (''ExitHTMLFullscreen'', JString ''esc'')]),
       (''UserAgent'', JString (navigatorUserAgent navigator)),
       (''Permissions'', JArray [JString ''fullscreen'']),
       (''ClearTraces'', JBool True),
       (''SingleInstance'', JBool True),
       (''FocusOnNewURL'', JBool True)]"

definition getSettings_part_000 ::
  "(string \<Rightarrow> exn + JSValue) \<Rightarrow> (JSValue \<Rightarrow> JSValue \<Rightarrow> JSValue) \<Rightarrow> string option
     \<Rightarrow> string \<Rightarrow> exn + JSValue" where
  "getSettings_part_000 readJsonSync utilsNormalize navigator configFile =
     (case readJsonSync configFile of
        Inl error \<Rightarrow> Inr (getDefaultSettings_part_000 navigator)
      | Inr settings \<Rightarrow>
          (case getField settings ''UserAgent'' of
             Inl e \<Rightarrow> Inl e
           | Inr ua \<Rightarrow>
               let userAgent = (case ua of
                                  JString u \<Rightarrow> JString u
                                | _ \<Rightarrow> JString (navigatorUserAgent navigator));
                   window = field settings ''Window'';
                   shortCuts = field settings ''ShortCuts''
               in
               if nullish window then Inl TypeError
               else if nullish shortCuts then Inl TypeError
               else
                 Inr (JObject
                  [(''Window'', JObject
                      [(''Left'', utilsNormalize (field window ''Left'') (JNumber 50)),
                       (''Top'', utilsNormalize (field window ''Top'') (JNumber 50)),
                       (''Width'', utilsNormalize (field window ''Width'') (JNumber 1024)),
                       (''Height'', utilsNormalize (field window ''Height'') (JNumber 768))]),
                   (''ShortCuts'', JObject
                      [(''Global'', utilsNormalize (field shortCuts ''Global'') (JBool True)),
                       (''ToggleAddressBar'',
                          utilsNormalize (field shortCuts ''ToggleAddressBar'')
                            (JString ''ctrl+alt+a'')),
                       (''ToggleInternalDevTools'',
                          utilsNormalize (field shortCuts ''ToggleInternalDevTools'')
                            (JString ''ctrl+alt+i'')),
                       (''ToggleDevTools'',
                          utilsNormalize (field shortCuts ''ToggleDevTools'')
                            (JString ''ctrl+alt+dx'')),
                       (''FocusLocationBar'',
                          utilsNormalize (field shortCuts ''FocusLocationBar'')
                            (JString ''ctrl+alt+l'')),
                       (''InternalReload'',
                          utilsNormalize (field shortCuts ''InternalReload'')
                            (JString ''ctrl+alt+shift+r'')),
                       (''Reload'',
                          utilsNormalize (field shortCuts ''Reload'') (JString ''ctrl+alt+r'')),
                       (''GoBack'',
                          utilsNormalize (field shortCuts ''GoBack'')
                            (JString ''ctrl+alt+left'')),
                       (''GoForward'',
                          utilsNormalize (field shortCuts ''GoForward'')
                            (JString ''ctrl+alt+right'')),
                       (''ExitHTMLFullscreen'',
                          utilsNormalize (field shortCuts ''ExitHTMLFullscreen'')
                            (JString ''esc''))]),
                   (''UserAgent'', userAgent),
                   (''Permissions'',
                      utilsNormalize (field settings ''Permissions'')
                        (JArray [JString ''fullscreen''])),
                   (''ClearTraces'', utilsNormalize (field settings ''ClearTraces'') (JBool True)),
                   (''SingleInstance'',
                      utilsNormalize (field settings ''SingleInstance'') (JBool True)),
                   (''FocusOnNewURL'',
                      utilsNormalize (field settings ''FocusOnNewURL'') (JBool True))])))"

section \<open>Vocabulary for the properties\<close>

text \<open>
  The renderer has no value for the outcome of a dispatch; what it does is visible on the
  console. A dispatch is \<open>Aborted\<close> when a handler's result is logged as \<open>ERROR\<close> or as
  unknown, \<open>Handled\<close> when it is logged as \<open>STOP\<close>, and \<open>Exhausted\<close> when a \<open>NONE\<close> or
  \<open>CONTINUE\<close> is logged with "last handler in chain reached".
\<close>

datatype Outcome = Aborted | Handled | Exhausted

fun outcomeOfMsg :: "'h Msg \<Rightarrow> Outcome option" where
  "outcomeOfMsg (ResultERROR h u) = Some Aborted"
| "outcomeOfMsg (ResultUnknown r h u) = Some Aborted"
| "outcomeOfMsg (ResultSTOP h) = Some Handled"
| "outcomeOfMsg (ResultNONE h u logMsg) =
     (if logMsg = ''last handler in chain reached'' then Some Exhausted else None)"
| "outcomeOfMsg (ResultCONTINUE h u logMsg) =
     (if logMsg = ''last handler in chain reached'' then Some Exhausted else None)"
| "outcomeOfMsg _ = None"

text \<open>The outcome that the messages report last, starting from \<open>acc\<close>.\<close>

fun lastOutcome :: "Outcome option \<Rightarrow> (Level \<times> 'h Msg) list \<Rightarrow> Outcome option" where
  "lastOutcome acc [] = acc"
| "lastOutcome acc ((l, m) # ms) =
     lastOutcome (case outcomeOfMsg m of Some out \<Rightarrow> Some out | None \<Rightarrow> acc) ms"

text \<open>What was appended to the list of handler calls, and to the console, from \<open>s\<close> to \<open>s'\<close>.\<close>

definition newCalls :: "'h Renderer \<Rightarrow> 'h Renderer \<Rightarrow> ('h \<times> string \<times> URLSource) list" where
  "newCalls s s' = drop (length (handleURLCalls s)) (handleURLCalls s')"

definition newConsole :: "'h Renderer \<Rightarrow> 'h Renderer \<Rightarrow> (Level \<times> 'h Msg) list" where
  "newConsole s s' = drop (length (console s)) (console s')"

definition dispatchOutcome :: "'h Renderer \<Rightarrow> 'h Renderer \<Rightarrow> Outcome option" where
  "dispatchOutcome s s' = lastOutcome None (newConsole s s')"

text \<open>The result that the handler of a recorded call reports, if it calls back.\<close>

definition reported :: "'h behaviour \<Rightarrow> 'h \<times> string \<times> URLSource \<Rightarrow> int option" where
  "reported handleURL c =
     (case c of (h, u, src) \<Rightarrow>
        (case handleURL h u src of Callback r red \<Rightarrow> Some r | Throws \<Rightarrow> None | NoCallback \<Rightarrow> None))"

definition advancing :: "HandleURL \<Rightarrow> int \<Rightarrow> bool" where
  "advancing hu r = (r = NONE hu \<or> r = CONTINUE hu)"

text \<open>The outcome that belongs to the result of the handler called last.\<close>

definition outcomeFor :: "HandleURL \<Rightarrow> int \<Rightarrow> Outcome" where
  "outcomeFor hu r =
     (if advancing hu r then Exhausted else if r = STOP hu then Handled else Aborted)"

text \<open>
  Assumptions on the parameters: every handler of the chain calls back when it is called,
  and the four result codes are four numbers.
\<close>

definition callsBack :: "'h behaviour \<Rightarrow> 'h list \<Rightarrow> bool" where
  "callsBack handleURL hs =
     (\<forall>h\<in>set hs. \<forall>u src. handleURL h u src \<noteq> Throws \<and> handleURL h u src \<noteq> NoCallback)"

definition distinctCodes :: "HandleURL \<Rightarrow> bool" where
  "distinctCodes hu = distinct [ERROR hu, NONE hu, CONTINUE hu, STOP hu]"

text \<open>The URL item that the next handler receives, and what an advancing step logs.\<close>

definition redirected ::
  "(string \<Rightarrow> URLSource \<Rightarrow> URLItem) \<Rightarrow> string option \<Rightarrow> URLItem \<Rightarrow> URLItem" where
  "redirected getURLItem redirectURL item =
     (case truthyURL redirectURL of Some u \<Rightarrow> getURLItem u PAGE | None \<Rightarrow> item)"

definition advanceMessages ::
  "HandleURL \<Rightarrow> 'h \<Rightarrow> string \<Rightarrow> string \<Rightarrow> int \<Rightarrow> string option
     \<Rightarrow> (Level \<times> 'h Msg) list" where
  "advanceMessages hu cur url logMsg r redirectURL =
     (ConsoleLog, if r = NONE hu then ResultNONE cur url logMsg else ResultCONTINUE cur url logMsg)
     # (case truthyURL redirectURL of
          Some u \<Rightarrow> [(ConsoleLog, Redirected cur url u)]
        | None \<Rightarrow> [])"

text \<open>
  A sequence of handler calls is orderly when every call but the last was answered with
  \<open>NONE\<close> or \<open>CONTINUE\<close>, and the answer to the last one determines the outcome; if that
  answer is \<open>NONE\<close> or \<open>CONTINUE\<close> too, all \<open>remaining\<close> handlers were called.
\<close>

definition orderly ::
  "HandleURL \<Rightarrow> 'h behaviour \<Rightarrow> nat \<Rightarrow> ('h \<times> string \<times> URLSource) list
     \<Rightarrow> Outcome option \<Rightarrow> bool" where
  "orderly hu handleURL remaining cs out =
     ((\<forall>c\<in>set (butlast cs). \<exists>r. reported handleURL c = Some r \<and> advancing hu r)
      \<and> (\<exists>r. reported handleURL (last cs) = Some r
             \<and> out = Some (outcomeFor hu r)
             \<and> (advancing hu r \<longrightarrow> length cs = remaining)))"

text \<open>The history item that \<open>currentHistoryItem\<close> refers to, and whether it has a neighbour.\<close>

definition currentItem :: "'h Renderer \<Rightarrow> BrowserHistoryItem option" where
  "currentItem s =
     (case currentHistoryItem s of None \<Rightarrow> None | Some a \<Rightarrow> itemAt (history s) a)"

definition hasNeighbour :: "(BrowserHistoryItem \<Rightarrow> nat option) \<Rightarrow> 'h Renderer \<Rightarrow> bool" where
  "hasNeighbour link s =
     (case currentItem s of None \<Rightarrow> False | Some item \<Rightarrow> link item \<noteq> None)"

text \<open>
  Each navigation button is enabled exactly when the history has at least two entries
  and the current item has the neighbour on that side.
\<close>

definition buttonsFollowHistory :: "'h Renderer \<Rightarrow> bool" where
  "buttonsFollowHistory s =
     ((\<not> goBackButtonDisabled s) = (2 \<le> Size (history s) \<and> hasNeighbour Previous s)
      \<and> (\<not> goForwardButtonDisabled s) = (2 \<le> Size (history s) \<and> hasNeighbour Next s))"

text \<open>
  The handler chain that the claim about \<open>Load\<close> and \<open>Active\<close> describes: one instance for
  each entry with both flags set, in declaration order.
\<close>

definition flaggedEntries :: "URLHandlerEntry list \<Rightarrow> URLHandlerEntry list" where
  "flaggedEntries entries = filter (\<lambda>e. Load e \<and> Active e) entries"

text \<open>The instance that \<open>loadURLHandlers\<close> obtains for an entry, if any.\<close>

definition instanceFor ::
  "(string \<Rightarrow> bool) \<Rightarrow> (string \<Rightarrow> string \<Rightarrow> 'h option) \<Rightarrow> URLHandlerEntry \<Rightarrow> 'h option" where
  "instanceFor requireOK factory e =
     (if SourceModule e \<noteq> [] \<and> requireOK (SourceModule e)
      then factory (ClassName e) (Config e) else None)"

subsection \<open>Concrete parameters\<close>

text \<open>Four distinct result codes, for evaluating the model on concrete inputs.\<close>

definition exampleCodes :: HandleURL where
  "exampleCodes = \<lparr>ERROR = 0, NONE = 1, CONTINUE = 2, STOP = 3\<rparr>"

text \<open>
  Modelled from the spec: \<open>getURLItem\<close> (module \<open>shared/URLItem\<close>, not among the sources)
  builds the navigation target of a URL and its provenance; this instance does not
  normalize the URL.
\<close>

definition plainURLItem :: "string \<Rightarrow> URLSource \<Rightarrow> URLItem" where
  "plainURLItem url src = \<lparr>DoLoad = True, OriginalURL = url, URL = url, Source = src\<rparr>"

text \<open>A renderer with two handlers, and one that has loaded a first page.\<close>

definition twoHandlers :: "string Renderer" where
  "twoHandlers =
     (newRenderer [] [''fullscreen''] ''app'' ''title'')\<lparr>URLHandlers := [''H1'', ''H2'']\<rparr>"

definition continueThenStop :: "string behaviour" where
  "continueThenStop h u src = (if h = ''H1'' then Callback 2 None else Callback 3 None)"

definition redirectThenStop :: "string behaviour" where
  "redirectThenStop h u src =
     (if h = ''H1'' then Callback 1 (Some ''http://r'') else Callback 3 None)"

definition visited :: "string Renderer" where
  "visited =
     snd (loadURL continueThenStop (plainURLItem ''http://a'' USER) True twoHandlers)"

text \<open>
  A renderer as the constructor leaves it when there is no URL to load: one handler
  loaded, nothing visited. And a renderer that has loaded a second page after the first.
\<close>

definition startedRenderer :: "string Renderer" where
  "startedRenderer =
     loadURLHandlers (\<lambda>m. True) (\<lambda>c cfg. Some c)
       (newRenderer
          [\<lparr>Load = True, Active = True, SourceModule = ''./DefaultURLHandler.js'',
            ClassName = ''DefaultURLHandler'', Config = ''{}''\<rparr>]
          [''fullscreen''] ''app'' ''title'')"

definition visitedTwice :: "string Renderer" where
  "visitedTwice =
     runTimers exampleCodes plainURLItem continueThenStop 2
       (snd (loadURL continueThenStop (plainURLItem ''http://b'' USER) True
               (runTimers exampleCodes plainURLItem continueThenStop 2 visited)))"

text \<open>A chain that holds the same handler object twice, and handlers that always continue.\<close>

definition cyclicChain :: "string Renderer" where
  "cyclicChain =
     (newRenderer [] [''fullscreen''] ''app'' ''title'')\<lparr>URLHandlers := [''A'', ''B'', ''A'']\<rparr>"

definition alwaysContinue :: "string behaviour" where
  "alwaysContinue h u src = Callback 2 None"

subsection \<open>Settings\<close>

text \<open>The type of a settings value: what \<open>typeof\<close> tells, with arrays and \<open>null\<close> apart.\<close>

datatype JSKind = KUndefined | KNull | KBool | KNumber | KString | KArray | KObject

fun kindOf :: "JSValue \<Rightarrow> JSKind" where
  "kindOf JUndefined = KUndefined"
| "kindOf JNull = KNull"
| "kindOf (JBool b) = KBool"
| "kindOf (JNumber n) = KNumber"
| "kindOf (JString s) = KString"
| "kindOf (JArray xs) = KArray"
| "kindOf (JObject kvs) = KObject"

text \<open>
  Modelled from the spec: \<open>normalize\<close> of the module \<open>Utils\<close> is not among the sources.
  The claim about \<open>getSettings\<close> describes it: a value that is absent or of the wrong type
  is replaced by the default.
\<close>

definition normalizeByType :: "JSValue \<Rightarrow> JSValue \<Rightarrow> JSValue" where
  "normalizeByType value defaultValue =
     (if kindOf value = kindOf defaultValue then value else defaultValue)"











text \<open>The value of a setting in the result of \<open>getSettings\<close>, if it returned one.\<close>

definition settingOf :: "exn + JSValue \<Rightarrow> string \<Rightarrow> JSValue option" where
  "settingOf r k = (case r of Inl e \<Rightarrow> None | Inr s \<Rightarrow> Some (field s k))"

text \<open>A settings file for evaluating \<open>getSettings\<close>, and a file system that holds it.\<close>

definition exampleSettingsFile :: JSValue where
  "exampleSettingsFile =
     JObject
      [(''Window'', JObject [(''Left'', JNumber 50), (''Width'', JString ''wide'')]),
       (''ShortCuts'', JObject [(''Global'', JBool False)]),
       (''UserAgent'', JString []),
       (''Homepage'', JString '' file://$APP_PATH$/index.html ''),
       (''Win32MenuState'', JNumber 7)]"

definition exampleFiles :: "string \<Rightarrow> exn + JSValue" where
  "exampleFiles configFile =
     (if configFile = ''settings.json'' then Inr exampleSettingsFile else Inl ReadError)"

section \<open>Properties of the renderer\<close>

text \<open>The definitions that evaluate the model on a concrete input.\<close>

lemmas eval_defs = twoHandlers_def continueThenStop_def redirectThenStop_def visited_def
  newRenderer_def exampleCodes_def plainURLItem_def loadURL_def blankPage_def
  addOrUpdateItem_def newBrowserHistory_def itemAt_def callHandleURL_def
  handleURLCallback_def doHandleURLCallback_def tryBlock_def catchBlock_def
  finallyBlock_def proceedWithNextHandler_def consoleWrite_def elementAt_def
  truthyURL_def newCalls_def newConsole_def dispatchOutcome_def callsBack_def
  distinctCodes_def advancing_def outcomeFor_def reported_def Let_def

subsection \<open>Permission requests\<close>

lemma indexOf_found: "(- 1 < indexOf xs x) = (x \<in> set xs)"
  by (induction xs) (auto simp: Let_def)

text \<open>
  C9. For every requested permission name, the permission-request handler grants the
  request if and only if the name occurs in \<open>settings.Permissions\<close>.
\<close>

theorem onPermissionRequest_grants_listed:
  "fst (onPermissionRequest permission s) = (permission \<in> set (settingsPermissions s))"
  by (simp add: onPermissionRequest_def Let_def indexOf_found)

subsection \<open>The spinner\<close>

lemma callHandleURL_spinner:
  "spinnerVisible (snd (callHandleURL b h u src s)) = spinnerVisible s"
  by (simp add: callHandleURL_def handleURLCallback_def Let_def split: HandlerReply.splits)

lemma proceed_spinner:
  "spinnerVisible (snd (proceedWithNextHandler g b cur nh red item s)) = spinnerVisible s"
  by (simp add: proceedWithNextHandler_def callHandleURL_spinner consoleWrite_def Let_def
      split: option.splits)

lemma tryBlock_spinner:
  "spinnerVisible (snd (tryBlock hu g b cur nh r red s)) = spinnerVisible s"
  by (simp add: tryBlock_def proceed_spinner consoleWrite_def Let_def split: option.splits)

lemma catchBlock_spinner:
  "spinnerVisible (snd (catchBlock cur x)) = spinnerVisible (snd x)"
  by (cases x) (simp add: catchBlock_def consoleWrite_def split: option.splits)

lemma finallyBlock_spinner:
  "spinnerVisible (snd (finallyBlock hu r x))
   = (spinnerVisible (snd x) \<and> (r = NONE hu \<or> r = CONTINUE hu))"
  by (cases x) (auto simp: finallyBlock_def)

text \<open>
  C8. In every continuation step of a dispatch (a handler is current), the spinner is
  visible after the step if and only if it was visible before and the result is \<open>NONE\<close>
  or \<open>CONTINUE\<close>: the step hides it exactly for the other results (\<open>STOP\<close>, \<open>ERROR\<close>, an
  unknown code) and leaves it alone otherwise, whether or not a next handler exists.
\<close>

theorem doHandleURLCallback_spinner:
  assumes "currentURLHandler s \<noteq> None"
  shows "spinnerVisible (snd (doHandleURLCallback hu g b r red s))
         = (spinnerVisible s \<and> (r = NONE hu \<or> r = CONTINUE hu))"
  using assms
  by (auto simp: doHandleURLCallback_def finallyBlock_spinner Let_def catchBlock_spinner
      tryBlock_spinner)

theorem doHandleURLCallback_spinner_witness:
  "(let s = (newRenderer [] [] ''app'' ''title'')
              \<lparr>URLHandlers := [''A''], currentURLHandler := Some ''A'',
               currentURLItem := Some (plainURLItem ''http://x'' USER),
               spinnerVisible := True\<rparr>;
        step = (\<lambda>r. snd (doHandleURLCallback exampleCodes plainURLItem
                            (\<lambda>h u src. NoCallback) r None s))
    in currentURLHandler s \<noteq> None
       \<and> spinnerVisible (step 1) \<and> spinnerVisible (step 2)
       \<and> \<not> spinnerVisible (step 0) \<and> \<not> spinnerVisible (step 3) \<and> \<not> spinnerVisible (step 9))"
  using doHandleURLCallback_spinner [of
      "(newRenderer [] [] ''app'' ''title'')
              \<lparr>URLHandlers := [''A''], currentURLHandler := Some ''A'',
               currentURLItem := Some (plainURLItem ''http://x'' USER),
               spinnerVisible := True\<rparr>"
      exampleCodes plainURLItem "\<lambda>h u src. NoCallback" _ None]
  by (simp add: newRenderer_def exampleCodes_def Let_def)

subsection \<open>Unknown results\<close>

text \<open>
  C7. While a dispatch is in progress (a handler and a URL item are current), a result
  outside \<open>{ERROR, NONE, CONTINUE, STOP}\<close> is treated as \<open>ERROR\<close> is: the step writes one
  message to the error console, hides the spinner and changes nothing else, so no
  handler is called, no callback is scheduled and the redirect URL is ignored. The two
  cases differ in the text of the message only.
\<close>

theorem unknown_result_like_ERROR:
  assumes "currentURLHandler s = Some cur" and "currentURLItem s = Some item"
    and "r \<notin> {ERROR hu, NONE hu, CONTINUE hu, STOP hu}"
    and "ERROR hu \<notin> {NONE hu, CONTINUE hu}"
  shows "doHandleURLCallback hu g b r red s
           = (None, (consoleWrite ConsoleError (ResultUnknown r cur (URL item)) s)
                      \<lparr>spinnerVisible := False\<rparr>)
       \<and> doHandleURLCallback hu g b (ERROR hu) red s
           = (None, (consoleWrite ConsoleError (ResultERROR cur (URL item)) s)
                      \<lparr>spinnerVisible := False\<rparr>)"
  using assms
  by (simp add: doHandleURLCallback_def tryBlock_def catchBlock_def finallyBlock_def Let_def)

theorem unknown_result_like_ERROR_witness:
  "(let s = (newRenderer [] [] ''app'' ''title'')
              \<lparr>URLHandlers := [''A'', ''B''], currentURLHandler := Some ''A'',
               currentURLItem := Some (plainURLItem ''http://x'' USER),
               spinnerVisible := True\<rparr>;
        s' = snd (doHandleURLCallback exampleCodes plainURLItem (\<lambda>h u src. Callback 3 None)
                    7 (Some ''http://r'') s)
    in \<not> spinnerVisible s' \<and> handleURLCalls s' = [] \<and> timers s' = []
       \<and> currentURLItem s' = Some (plainURLItem ''http://x'' USER)
       \<and> console s' = [(ConsoleError, ResultUnknown 7 ''A'' ''http://x'')])"
  using unknown_result_like_ERROR [of
      "(newRenderer [] [] ''app'' ''title'')
              \<lparr>URLHandlers := [''A'', ''B''], currentURLHandler := Some ''A'',
               currentURLItem := Some (plainURLItem ''http://x'' USER),
               spinnerVisible := True\<rparr>"
      "''A''" "plainURLItem ''http://x'' USER" 7 exampleCodes plainURLItem
      "\<lambda>h u src. Callback 3 None" "Some ''http://r''"]
  by (simp add: newRenderer_def exampleCodes_def plainURLItem_def consoleWrite_def Let_def)

subsection \<open>Loading the handlers\<close>

lemma loadURLHandler_chain:
  "URLHandlers (loadURLHandler req fac e s)
   = URLHandlers s @ (case instanceFor req fac e of None \<Rightarrow> [] | Some h \<Rightarrow> [h])"
  by (simp add: loadURLHandler_def instanceFor_def consoleWrite_def split: option.splits)

lemma loadURLHandler_console:
  "console (loadURLHandler req fac e s)
   = console s @ (if SourceModule e \<noteq> [] \<and> instanceFor req fac e = None
                  then [(ConsoleError, HandlerLoadError (SourceModule e))] else [])"
  by (simp add: loadURLHandler_def instanceFor_def consoleWrite_def split: option.splits)

lemma loadURLHandlersFrom_chain:
  "URLHandlers (loadURLHandlersFrom req fac es s)
   = URLHandlers s @ List.map_filter (instanceFor req fac) es"
  by (induction es arbitrary: s) (simp_all add: loadURLHandler_chain split: option.splits)

lemma loadURLHandlersFrom_console:
  "console (loadURLHandlersFrom req fac es s)
   = console s @ map (\<lambda>e. (ConsoleError, HandlerLoadError (SourceModule e)))
                   (filter (\<lambda>e. SourceModule e \<noteq> [] \<and> instanceFor req fac e = None) es)"
  by (induction es arbitrary: s) (simp_all add: loadURLHandler_console)

text \<open>
  C2, as stated, fails: \<open>loadURLHandlers\<close> never reads \<open>Load\<close> or \<open>Active\<close>. An entry with
  \<open>Load\<close> set and \<open>Active\<close> unset, which the claim says is skipped, is in the chain.
\<close>

theorem loadURLHandlers_ignores_flags:
  "(let entries = [\<lparr>Load = True, Active = False, SourceModule = ''a.js'',
                    ClassName = ''A'', Config = ''{}''\<rparr>];
        s = loadURLHandlers (\<lambda>m. True) (\<lambda>c cfg. Some c) (newRenderer entries [] ''app'' ''t'')
    in URLHandlers s = [''A''] \<and> flaggedEntries entries = [])"
  by (simp add: loadURLHandlers_def loadURLHandler_def newRenderer_def flaggedEntries_def)

text \<open>
  C2, amended. The chain built by \<open>loadURLHandlers\<close> holds, in declaration order, one
  instance for each configured entry whose \<open>Source\<close> is not empty and whose module loads
  and constructs without an exception; the flags play no part. Each entry with a
  non-empty \<open>Source\<close> that fails is reported on the error console and skipped, and the
  entries behind it are still loaded.
\<close>

theorem loadURLHandlers_chain:
  "URLHandlers (loadURLHandlers req fac s)
     = URLHandlers s @ List.map_filter (instanceFor req fac) (settingsURLHandlers s)
   \<and> console (loadURLHandlers req fac s)
     = console s @ map (\<lambda>e. (ConsoleError, HandlerLoadError (SourceModule e)))
         (filter (\<lambda>e. SourceModule e \<noteq> [] \<and> instanceFor req fac e = None)
            (settingsURLHandlers s))"
  by (simp add: loadURLHandlers_def loadURLHandlersFrom_chain loadURLHandlersFrom_console)

theorem loadURLHandlers_chain_witness:
  "(let entries = [\<lparr>Load = False, Active = False, SourceModule = ''bad.js'',
                    ClassName = ''Bad'', Config = ''{}''\<rparr>,
                   \<lparr>Load = True, Active = True, SourceModule = [],
                    ClassName = ''NoSource'', Config = ''{}''\<rparr>,
                   \<lparr>Load = False, Active = True, SourceModule = ''b.js'',
                    ClassName = ''B'', Config = ''{}''\<rparr>];
        s = loadURLHandlers (\<lambda>m. m \<noteq> ''bad.js'') (\<lambda>c cfg. Some c)
              (newRenderer entries [] ''app'' ''t'')
    in URLHandlers s = [''B'']
       \<and> console s = [(ConsoleError, HandlerLoadError ''bad.js'')])"
  using loadURLHandlers_chain [of "\<lambda>m. m \<noteq> ''bad.js''" "\<lambda>c cfg. Some c"
      "newRenderer [\<lparr>Load = False, Active = False, SourceModule = ''bad.js'',
                    ClassName = ''Bad'', Config = ''{}''\<rparr>,
                   \<lparr>Load = True, Active = True, SourceModule = [],
                    ClassName = ''NoSource'', Config = ''{}''\<rparr>,
                   \<lparr>Load = False, Active = True, SourceModule = ''b.js'',
                    ClassName = ''B'', Config = ''{}''\<rparr>] [] ''app'' ''t''"]
  by (simp add: newRenderer_def instanceFor_def)

subsection \<open>The blank page\<close>

text \<open>
  C6, as stated, fails for the empty chain: \<open>loadURL\<close> tests for an empty chain first and
  then only warns, so the blank page is not rendered and the title stays as it was.
\<close>

theorem loadURL_blank_page_empty_chain:
  "(let s = newRenderer [] [] ''app'' ''title'' :: string Renderer;
        s' = snd (loadURL (\<lambda>h u src. NoCallback) (plainURLItem blankPage USER) True s)
    in URLHandlers s = [] \<and> OriginalURL (plainURLItem blankPage USER) = blankPage
       \<and> webViewSrc s' = None \<and> windowTitle s' = ''title'')"
  by (simp add: loadURL_def newRenderer_def plainURLItem_def consoleWrite_def)

text \<open>
  C6, amended. For a URL item whose original URL is the blank page: with a non-empty
  handler chain \<open>loadURL\<close> sets the web view to the empty page and the window title to
  the application's name, and changes nothing else; with an empty chain it only writes a
  warning. In both cases the history is untouched, no handler is called and no callback
  is scheduled.
\<close>

theorem loadURL_blank_page:
  assumes "OriginalURL urlItem = blankPage"
  shows "(URLHandlers s \<noteq> [] \<longrightarrow>
            loadURL b urlItem updateHistory s
              = (None, s\<lparr>webViewSrc := Some blankPageContent, windowTitle := appInfoName s\<rparr>))
       \<and> (URLHandlers s = [] \<longrightarrow>
            loadURL b urlItem updateHistory s
              = (None, consoleWrite ConsoleWarn NoHandlersConfigured s))
       \<and> history (snd (loadURL b urlItem updateHistory s)) = history s
       \<and> handleURLCalls (snd (loadURL b urlItem updateHistory s)) = handleURLCalls s
       \<and> timers (snd (loadURL b urlItem updateHistory s)) = timers s"
  using assms
  by (auto simp: loadURL_def consoleWrite_def split: list.splits)

theorem loadURL_blank_page_witness:
  "(let s' = snd (loadURL continueThenStop (plainURLItem blankPage USER) True twoHandlers)
    in webViewSrc s' = Some blankPageContent \<and> windowTitle s' = ''app''
       \<and> history s' = newBrowserHistory blankPage \<and> handleURLCalls s' = [])"
  using loadURL_blank_page [of "plainURLItem blankPage USER" twoHandlers continueThenStop True]
  by (simp add: twoHandlers_def newRenderer_def plainURLItem_def)

subsection \<open>Back and forward\<close>

lemma callHandleURL_history:
  "history (snd (callHandleURL b h u src s)) = history s"
  by (simp add: callHandleURL_def handleURLCallback_def Let_def split: HandlerReply.splits)

lemma loadURL_keeps_history:
  "history (snd (loadURL b urlItem False s)) = history s"
  by (simp add: loadURL_def callHandleURL_history consoleWrite_def Let_def split: list.splits)

lemma goAlong_history: "history (snd (goAlong link g b s)) = history s"
  by (simp add: goAlong_def loadURL_keeps_history Let_def split: option.splits)

text \<open>
  \<open>goBack\<close> and \<open>goForward\<close> never change the history, whatever the state. When the renderer
  holds a current history item that has no \<open>Previous\<close> (no \<open>Next\<close>) they do nothing at all;
  when it has one, they make that neighbour the current item and call \<open>loadURL\<close> for its
  URL with \<open>updateHistory = false\<close>.
\<close>

lemma goBack_goForward_keep_history:
  "history (snd (goBack g b s)) = history s
   \<and> history (snd (goForward g b s)) = history s
   \<and> (\<forall>a item. currentHistoryItem s = Some a \<and> itemAt (history s) a = Some item \<longrightarrow>
        (Previous item = None \<longrightarrow> goBack g b s = (None, s))
      \<and> (Next item = None \<longrightarrow> goForward g b s = (None, s))
      \<and> (\<forall>p n. Previous item = Some p \<and> itemAt (history s) p = Some n \<longrightarrow>
            goBack g b s
              = loadURL b (g (ItemURL n) USER) False (s\<lparr>currentHistoryItem := Some p\<rparr>))
      \<and> (\<forall>p n. Next item = Some p \<and> itemAt (history s) p = Some n \<longrightarrow>
            goForward g b s
              = loadURL b (g (ItemURL n) USER) False (s\<lparr>currentHistoryItem := Some p\<rparr>)))"
  by (simp add: goBack_def goForward_def goAlong_history) (simp add: goAlong_def)

text \<open>
  On a renderer that has visited two pages: going back calls the first handler with the
  URL of the first page and the source \<open>USER\<close>, going forward again with that of the
  second; the history stays as it was. Going back from the first page shows the blank
  page, and there is no way further back.
\<close>

lemma goBack_goForward_reload:
  "(let back = snd (goBack plainURLItem continueThenStop visitedTwice);
        forth = snd (goForward plainURLItem continueThenStop back)
    in currentHistoryItem visitedTwice = Some 2
       \<and> currentHistoryItem back = Some 1
       \<and> newCalls visitedTwice back = [(''H1'', ''http://a'', USER)]
       \<and> windowTitle back = ''http://a''
       \<and> history back = history visitedTwice
       \<and> currentHistoryItem forth = Some 2
       \<and> newCalls back forth = [(''H1'', ''http://b'', USER)]
       \<and> history forth = history visitedTwice)"
  by (simp add: visitedTwice_def goBack_def goForward_def goAlong_def eval_defs numeral_2_eq_2)

lemma goBack_to_blank_page:
  "(let s' = snd (goBack plainURLItem continueThenStop visited)
    in currentHistoryItem visited = Some 1 \<and> currentHistoryItem s' = Some 0
       \<and> history s' = history visited
       \<and> webViewSrc s' = Some blankPageContent
       \<and> goBack plainURLItem continueThenStop s' = (None, s')
       \<and> goForward plainURLItem continueThenStop visited = (None, visited))"
  using goBack_goForward_keep_history [of plainURLItem continueThenStop visited]
    goBack_goForward_keep_history [of plainURLItem continueThenStop
       "snd (goBack plainURLItem continueThenStop visited)"]
  by (simp add: eval_defs)

text \<open>
  C4. Before anything is loaded the renderer holds no current history item: the field
  \<open>currentHistoryItem\<close> is assigned by \<open>loadURL\<close> and \<open>onDidNavigateInPage\<close> only. There is no
  way back or forward then, and \<open>goBack\<close> and \<open>goForward\<close> should do nothing. On the renderer
  as the constructor leaves it, and still after it has shown the blank page, both throw a
  \<open>TypeError\<close> instead (they read \<open>Previous\<close> and \<open>Next\<close> of \<open>undefined\<close>); the state is left
  as it was.
\<close>

theorem goBack_throws_before_first_load:
  "currentHistoryItem startedRenderer = None
   \<and> URLHandlers startedRenderer = [''DefaultURLHandler'']
   \<and> goBack plainURLItem continueThenStop startedRenderer = (Some TypeError, startedRenderer)
   \<and> goForward plainURLItem continueThenStop startedRenderer = (Some TypeError, startedRenderer)
   \<and> (let s = snd (loadURL continueThenStop (plainURLItem blankPage USER) True startedRenderer)
      in webViewSrc s = Some blankPageContent
         \<and> goBack plainURLItem continueThenStop s = (Some TypeError, s)
         \<and> goForward plainURLItem continueThenStop s = (Some TypeError, s))"
  by (simp add: startedRenderer_def loadURLHandlers_def loadURLHandler_def goBack_def
      goForward_def goAlong_def eval_defs)

subsection \<open>The navigation buttons\<close>

lemma updateNavigationButtons_follow:
  assumes "updateNavigationButtons s = (None, s')"
  shows "buttonsFollowHistory s'"
  using assms
  by (auto simp: updateNavigationButtons_def navigationDisabled_def buttonsFollowHistory_def
      hasNeighbour_def currentItem_def Let_def split: sum.splits if_splits option.splits)

lemma updateNavigationButtons_returns:
  assumes "Size (history s) < 2 \<or> currentItem s \<noteq> None"
  shows "fst (updateNavigationButtons s) = None"
  using assms
  by (auto simp: updateNavigationButtons_def navigationDisabled_def currentItem_def Let_def
      split: sum.splits if_splits option.splits)

lemma addOrUpdateItem_valid:
  assumes "itemAt h (Current h) \<noteq> None" and "addOrUpdateItem h url = (h', a)"
  shows "itemAt h' a \<noteq> None"
  using assms
  by (auto simp: addOrUpdateItem_def itemAt_def Let_def split: option.splits if_splits)

text \<open>
  C5. After \<open>onDidNavigate\<close> and after \<open>onDidNavigateInPage\<close>, the back button is enabled
  if and only if the history has at least two entries and the current history item has a
  \<open>Previous\<close>, and the forward button likewise with \<open>Next\<close>; with fewer than two entries both
  are disabled. Both handlers complete (they throw nothing) when the history has fewer
  than two entries or the renderer holds a current history item; \<open>onDidNavigate\<close> on the
  error page needs a current URL item as well.
\<close>

theorem navigation_buttons_follow_history:
  "(onDidNavigate url s = (None, s') \<longrightarrow> buttonsFollowHistory s')
   \<and> (onDidNavigateInPage g url s = (None, s') \<longrightarrow> buttonsFollowHistory s')
   \<and> ((onDidNavigate url s = (None, s') \<or> onDidNavigateInPage g url s = (None, s'))
        \<and> Size (history s') < 2
        \<longrightarrow> goBackButtonDisabled s' \<and> goForwardButtonDisabled s')
   \<and> ((Size (history s) < 2 \<or> currentItem s \<noteq> None)
        \<and> (url = errorPage s \<longrightarrow> url = blankPageContent \<or> currentURLItem s \<noteq> None)
        \<longrightarrow> fst (onDidNavigate url s) = None)
   \<and> (itemAt (history s) (Current (history s)) \<noteq> None
        \<longrightarrow> fst (onDidNavigateInPage g url s) = None)"
proof -
  have nav: "buttonsFollowHistory s'" if "onDidNavigate url s = (None, s')"
    using that
    by (auto simp: onDidNavigate_def split: if_splits option.splits
        dest: updateNavigationButtons_follow)
  have inpage: "buttonsFollowHistory s'" if "onDidNavigateInPage g url s = (None, s')"
    using that
    by (auto simp: onDidNavigateInPage_def split: prod.splits
        dest: updateNavigationButtons_follow)
  have few: "goBackButtonDisabled s' \<and> goForwardButtonDisabled s'"
    if "buttonsFollowHistory s'" and "Size (history s') < 2"
    using that by (auto simp: buttonsFollowHistory_def)
  have total: "fst (onDidNavigate url s) = None"
    if "Size (history s) < 2 \<or> currentItem s \<noteq> None"
      and "url = errorPage s \<longrightarrow> url = blankPageContent \<or> currentURLItem s \<noteq> None"
    using that
    by (auto simp: onDidNavigate_def currentItem_def
        intro!: updateNavigationButtons_returns split: option.splits)
  have total': "fst (onDidNavigateInPage g url s) = None"
    if a: "itemAt (history s) (Current (history s)) \<noteq> None"
  proof -
    obtain h' a' where r: "addOrUpdateItem (history s) (URL (g url PAGE)) = (h', a')"
      by (cases "addOrUpdateItem (history s) (URL (g url PAGE))")
    from addOrUpdateItem_valid [OF a r] show ?thesis
      by (auto simp: onDidNavigateInPage_def r currentItem_def
          intro!: updateNavigationButtons_returns)
  qed
  show ?thesis
  proof (intro conjI impI)
    assume "(onDidNavigate url s = (None, s') \<or> onDidNavigateInPage g url s = (None, s'))
        \<and> Size (history s') < 2"
    then have "buttonsFollowHistory s'" and "Size (history s') < 2"
      using nav inpage by auto
    then show "goBackButtonDisabled s'" and "goForwardButtonDisabled s'"
      using few by auto
  qed (use nav inpage total total' in auto)
qed

theorem navigation_buttons_follow_history_witness:
  "(let s1 = snd (onDidNavigate ''http://a/'' visited);
        s2 = snd (onDidNavigateInPage plainURLItem ''http://a/#top'' s1);
        s0 = snd (onDidNavigate blankPageContent (newRenderer [] [] ''app'' ''t'' :: string Renderer))
    in onDidNavigate ''http://a/'' visited = (None, s1)
       \<and> Size (history s1) = 2 \<and> \<not> goBackButtonDisabled s1 \<and> goForwardButtonDisabled s1
       \<and> onDidNavigateInPage plainURLItem ''http://a/#top'' s1 = (None, s2)
       \<and> Size (history s2) = 3 \<and> \<not> goBackButtonDisabled s2 \<and> goForwardButtonDisabled s2
       \<and> Size (history s0) = 1 \<and> goBackButtonDisabled s0 \<and> goForwardButtonDisabled s0)"
  using navigation_buttons_follow_history [of "''http://a/''" visited
          "snd (onDidNavigate ''http://a/'' visited)" plainURLItem]
  by (simp add: eval_defs onDidNavigate_def onDidNavigateInPage_def
      updateNavigationButtons_def navigationDisabled_def blankPageContent_def
      buttonsFollowHistory_def hasNeighbour_def currentItem_def)

subsection \<open>The dispatch along the chain\<close>

lemma indexOf_nth: "distinct xs \<Longrightarrow> i < length xs \<Longrightarrow> indexOf xs (xs ! i) = int i"
proof (induction xs arbitrary: i)
  case Nil
  then show ?case by simp
next
  case (Cons y ys)
  show ?case
  proof (cases i)
    case 0
    then show ?thesis by simp
  next
    case (Suc j)
    with Cons.prems have "ys ! j \<noteq> y" and "indexOf ys (ys ! j) = int j"
      using Cons.IH [of j] by auto
    with Suc show ?thesis by (simp add: Let_def)
  qed
qed

lemma nextHandler_distinct:
  "distinct xs \<Longrightarrow> i < length xs \<Longrightarrow>
   elementAt xs (indexOf xs (xs ! i) + 1) = (if Suc i < length xs then Some (xs ! Suc i) else None)"
  by (simp add: indexOf_nth elementAt_def nat_add_distrib)

lemma runTimers_idle: "timers s = [] \<Longrightarrow> runTimers hu g b n s = s"
  by (cases n) simp_all

lemma lastOutcome_append:
  "lastOutcome acc (xs @ ys) = lastOutcome (lastOutcome acc xs) ys"
  by (induction xs arbitrary: acc) auto

lemma step_terminal:
  assumes "currentURLHandler s = Some cur" and "currentURLItem s = Some item"
    and "\<not> advancing hu r" and "distinctCodes hu"
  shows "\<exists>l m. doHandleURLCallback hu g b r red s
           = (None, (consoleWrite l m s)\<lparr>spinnerVisible := False\<rparr>)
         \<and> outcomeOfMsg m = Some (outcomeFor hu r)"
proof -
  consider "r = ERROR hu" | "r = STOP hu" "r \<noteq> ERROR hu"
    | "r \<noteq> ERROR hu" "r \<noteq> STOP hu" by blast
  then show ?thesis
  proof cases
    case 1
    with assms have "doHandleURLCallback hu g b r red s
        = (None, (consoleWrite ConsoleError (ResultERROR cur (URL item)) s)\<lparr>spinnerVisible := False\<rparr>)"
      by (simp add: doHandleURLCallback_def tryBlock_def catchBlock_def finallyBlock_def Let_def
          advancing_def)
    moreover from 1 assms have "outcomeOfMsg (ResultERROR cur (URL item) :: 'a Msg) = Some (outcomeFor hu r)"
      by (simp add: outcomeFor_def distinctCodes_def)
    ultimately show ?thesis by blast
  next
    case 2
    with assms have "doHandleURLCallback hu g b r red s
        = (None, (consoleWrite ConsoleLog (ResultSTOP cur) s)\<lparr>spinnerVisible := False\<rparr>)"
      by (simp add: doHandleURLCallback_def tryBlock_def catchBlock_def finallyBlock_def Let_def
          advancing_def)
    moreover from 2 assms have "outcomeOfMsg (ResultSTOP cur :: 'a Msg) = Some (outcomeFor hu r)"
      by (simp add: outcomeFor_def distinctCodes_def)
    ultimately show ?thesis by blast
  next
    case 3
    with assms have "doHandleURLCallback hu g b r red s
        = (None, (consoleWrite ConsoleError (ResultUnknown r cur (URL item)) s)\<lparr>spinnerVisible := False\<rparr>)"
      by (simp add: doHandleURLCallback_def tryBlock_def catchBlock_def finallyBlock_def Let_def
          advancing_def)
    moreover from 3 assms have "outcomeOfMsg (ResultUnknown r cur (URL item) :: 'a Msg) = Some (outcomeFor hu r)"
      by (simp add: outcomeFor_def distinctCodes_def)
    ultimately show ?thesis by blast
  qed
qed


lemma advanceMessages_last:
  "lastOutcome acc (advanceMessages hu cur url ''last handler in chain reached'' r red)
   = Some Exhausted"
  by (simp add: advanceMessages_def split: option.splits)

lemma advanceMessages_next:
  "lastOutcome acc (advanceMessages hu cur url ''continuing with next handler'' r red) = acc"
  by (simp add: advanceMessages_def split: option.splits)

lemma step_last:
  assumes "currentURLHandler s = Some (URLHandlers s ! i)" and "currentURLItem s = Some item"
    and "distinct (URLHandlers s)" and "Suc i = length (URLHandlers s)"
    and "advancing hu r" and "distinctCodes hu"
  shows "doHandleURLCallback hu g b r red s
           = (None, s\<lparr>console := console s
                         @ advanceMessages hu (URLHandlers s ! i) (URL item)
                             ''last handler in chain reached'' r red,
                      permissionRequestHandlerSet := True\<rparr>)"
proof -
  from assms have nh: "elementAt (URLHandlers s) (indexOf (URLHandlers s) (URLHandlers s ! i) + 1) = None"
    using nextHandler_distinct [of "URLHandlers s" i] by simp
  from assms(5,6) have "r \<noteq> ERROR hu" by (auto simp: advancing_def distinctCodes_def)
  with assms(1,2,5) nh show ?thesis
    by (cases "truthyURL red")
       (auto simp: doHandleURLCallback_def tryBlock_def catchBlock_def finallyBlock_def
          advancing_def proceedWithNextHandler_def consoleWrite_def advanceMessages_def)
qed


lemma callHandleURL_Callback:
  "b h u src = Callback r' red' \<Longrightarrow>
   callHandleURL b h u src s
     = (None, s\<lparr>handleURLCalls := handleURLCalls s @ [(h, u, src)],
                timers := timers s @ [(r', red')]\<rparr>)"
  by (simp add: callHandleURL_def handleURLCallback_def)

lemma proceed_next:
  assumes "b nh (URL (redirected g red item)) (Source (redirected g red item)) = Callback r' red'"
  shows "proceedWithNextHandler g b cur (Some nh) red item s
    = (None, s\<lparr>console := console s
                    @ (case truthyURL red of
                         Some u \<Rightarrow> [(ConsoleLog, Redirected cur (URL item) u)]
                       | None \<Rightarrow> []),
                 currentURLItem := Some (redirected g red item),
                 currentURLHandler := Some nh,
                 handleURLCalls := handleURLCalls s
                    @ [(nh, URL (redirected g red item), Source (redirected g red item))],
                 timers := timers s @ [(r', red')]\<rparr>)"
proof (cases "truthyURL red")
  case None
  with assms have "b nh (URL item) (Source item) = Callback r' red'"
    by (simp add: redirected_def)
  with None show ?thesis
    by (simp add: proceedWithNextHandler_def callHandleURL_Callback redirected_def Let_def)
next
  case (Some u)
  with assms have "b nh (URL (g u PAGE)) (Source (g u PAGE)) = Callback r' red'"
    by (simp add: redirected_def)
  with Some show ?thesis
    by (simp add: proceedWithNextHandler_def callHandleURL_Callback redirected_def
        consoleWrite_def Let_def)
qed


lemma step_next:
  assumes "currentURLHandler s = Some (URLHandlers s ! i)" and "currentURLItem s = Some item"
    and "distinct (URLHandlers s)" and "Suc i < length (URLHandlers s)"
    and "advancing hu r" and "distinctCodes hu"
    and "b (URLHandlers s ! Suc i) (URL (redirected g red item)) (Source (redirected g red item))
         = Callback r' red'"
  shows "doHandleURLCallback hu g b r red s
           = (None, s\<lparr>console := console s
                         @ advanceMessages hu (URLHandlers s ! i) (URL item)
                             ''continuing with next handler'' r red,
                      currentURLItem := Some (redirected g red item),
                      currentURLHandler := Some (URLHandlers s ! Suc i),
                      handleURLCalls := handleURLCalls s
                         @ [(URLHandlers s ! Suc i, URL (redirected g red item),
                             Source (redirected g red item))],
                      timers := timers s @ [(r', red')]\<rparr>)"
proof -
  from assms have nh: "elementAt (URLHandlers s) (indexOf (URLHandlers s) (URLHandlers s ! i) + 1)
      = Some (URLHandlers s ! Suc i)"
    using nextHandler_distinct [of "URLHandlers s" i] by simp
  from assms(5,6) have ne: "r \<noteq> ERROR hu" by (auto simp: advancing_def distinctCodes_def)
  note pn = proceed_next [where b = b and g = g and red = red and item = item
      and nh = "URLHandlers s ! Suc i", OF assms(7)]
  from assms(5) consider "r = NONE hu" | "r = CONTINUE hu" "r \<noteq> NONE hu"
    by (auto simp: advancing_def)
  then show ?thesis
  proof cases
    case 1
    with ne assms(1,2) nh show ?thesis
      by (simp add: doHandleURLCallback_def tryBlock_def catchBlock_def finallyBlock_def
          pn consoleWrite_def advanceMessages_def)
  next
    case 2
    with ne assms(1,2) nh show ?thesis
      by (simp add: doHandleURLCallback_def tryBlock_def catchBlock_def finallyBlock_def
          pn consoleWrite_def advanceMessages_def)
  qed
qed


lemma callsBack_reply:
  assumes "callsBack b hs" and "h \<in> set hs"
  obtains r red where "b h u src = Callback r red"
  using assms by (cases "b h u src") (auto simp: callsBack_def)

lemma orderly_single:
  assumes "b h u src = Callback r red" and "out = Some (outcomeFor hu r)"
    and "advancing hu r \<longrightarrow> remaining = 1"
  shows "orderly hu b remaining [(h, u, src)] out"
  using assms by (auto simp: orderly_def reported_def)

lemma orderly_Cons:
  assumes "b h u src = Callback r red" and "advancing hu r"
    and "orderly hu b remaining (c # cs) out"
  shows "orderly hu b (Suc remaining) ((h, u, src) # c # cs) out"
  using assms by (auto simp: orderly_def reported_def)

lemma run_from:
  "\<lbrakk>distinct (URLHandlers s); i < length (URLHandlers s);
    currentURLHandler s = Some (URLHandlers s ! i); currentURLItem s = Some item;
    timers s = [(r, red)];
    b (URLHandlers s ! i) (URL item) (Source item) = Callback r red;
    callsBack b (URLHandlers s); distinctCodes hu;
    n = length (URLHandlers s) - i\<rbrakk>
   \<Longrightarrow> \<exists>cs ms.
         timers (runTimers hu g b n s) = []
       \<and> uncaught (runTimers hu g b n s) = uncaught s
       \<and> handleURLCalls (runTimers hu g b n s) = handleURLCalls s @ cs
       \<and> console (runTimers hu g b n s) = console s @ ms
       \<and> map fst cs = take (length cs) (drop (Suc i) (URLHandlers s))
       \<and> orderly hu b (length (URLHandlers s) - i)
            ((URLHandlers s ! i, URL item, Source item) # cs) (lastOutcome None ms)"
proof (induction n arbitrary: s i item r red)
  case 0
  then show ?case by simp
next
  case (Suc n)
  let ?chain = "URLHandlers s"
  let ?s0 = "s\<lparr>timers := []\<rparr>"
  let ?c = "(?chain ! i, URL item, Source item)"
  have run: "runTimers hu g b (Suc n) s =
      (case doHandleURLCallback hu g b r red ?s0 of
         (None, s') \<Rightarrow> runTimers hu g b n s'
       | (Some e, s') \<Rightarrow> runTimers hu g b n (s'\<lparr>uncaught := uncaught s' @ [e]\<rparr>))"
    using Suc.prems(5) by simp
  show ?case
  proof (cases "advancing hu r")
    case False
    from step_terminal [of ?s0 "?chain ! i" item hu r g b red] Suc.prems False
    obtain l m where
      st: "doHandleURLCallback hu g b r red ?s0
             = (None, (consoleWrite l m ?s0)\<lparr>spinnerVisible := False\<rparr>)"
      and om: "outcomeOfMsg m = Some (outcomeFor hu r)"
      by auto
    let ?s1 = "(consoleWrite l m ?s0)\<lparr>spinnerVisible := False\<rparr>"
    have fin: "runTimers hu g b (Suc n) s = ?s1"
      using run st by (simp add: runTimers_idle consoleWrite_def)
    have "orderly hu b (length ?chain - i) [?c] (lastOutcome None [(l, m)])"
      using Suc.prems(6) om False by (intro orderly_single) auto
    then show ?thesis
      unfolding fin
      by (intro exI [of _ "[]"] exI [of _ "[(l, m)]"]) (simp add: consoleWrite_def)
  next
    case True
    show ?thesis
    proof (cases "Suc i < length ?chain")
      case False
      with Suc.prems(2) have last: "Suc i = length (URLHandlers ?s0)" by simp
      let ?ms = "advanceMessages hu (?chain ! i) (URL item) ''last handler in chain reached'' r red"
      let ?s1 = "?s0\<lparr>console := console ?s0 @ ?ms, permissionRequestHandlerSet := True\<rparr>"
      have st: "doHandleURLCallback hu g b r red ?s0 = (None, ?s1)"
        using step_last [of ?s0 i item hu r g b red] Suc.prems True last by simp
      have fin: "runTimers hu g b (Suc n) s = ?s1"
        using run st by (simp add: runTimers_idle)
      have "orderly hu b (length ?chain - i) [?c] (lastOutcome None ?ms)"
        using Suc.prems(6) True last
        by (intro orderly_single) (auto simp: advanceMessages_last outcomeFor_def)
      then show ?thesis
        unfolding fin
        by (intro exI [of _ "[]"] exI [of _ ?ms]) simp
    next
      case next_exists: True
      let ?nh = "?chain ! Suc i"
      let ?item' = "redirected g red item"
      let ?c' = "(?nh, URL ?item', Source ?item')"
      from next_exists have "?nh \<in> set ?chain" by simp
      with Suc.prems(7) obtain r' red' where
        reply: "b ?nh (URL ?item') (Source ?item') = Callback r' red'"
        by (rule callsBack_reply)
      let ?ms = "advanceMessages hu (?chain ! i) (URL item) ''continuing with next handler'' r red"
      let ?s1 = "?s0\<lparr>console := console ?s0 @ ?ms,
                      currentURLItem := Some ?item',
                      currentURLHandler := Some ?nh,
                      handleURLCalls := handleURLCalls ?s0 @ [?c'],
                      timers := timers ?s0 @ [(r', red')]\<rparr>"
      have st: "doHandleURLCallback hu g b r red ?s0 = (None, ?s1)"
        using step_next [of ?s0 i item hu r b g red r' red'] Suc.prems True next_exists reply
        by simp
      have fin: "runTimers hu g b (Suc n) s = runTimers hu g b n ?s1"
        using run st by simp
      have "\<exists>cs ms.
               timers (runTimers hu g b n ?s1) = []
             \<and> uncaught (runTimers hu g b n ?s1) = uncaught ?s1
             \<and> handleURLCalls (runTimers hu g b n ?s1) = handleURLCalls ?s1 @ cs
             \<and> console (runTimers hu g b n ?s1) = console ?s1 @ ms
             \<and> map fst cs = take (length cs) (drop (Suc (Suc i)) (URLHandlers ?s1))
             \<and> orderly hu b (length (URLHandlers ?s1) - Suc i)
                  ((URLHandlers ?s1 ! Suc i, URL ?item', Source ?item') # cs)
                  (lastOutcome None ms)"
        using Suc.prems next_exists reply
        by (intro Suc.IH [of ?s1 "Suc i" ?item' r' red']) simp_all
      then obtain cs ms where
        t: "timers (runTimers hu g b n ?s1) = []"
        and u: "uncaught (runTimers hu g b n ?s1) = uncaught s"
        and c: "handleURLCalls (runTimers hu g b n ?s1) = handleURLCalls s @ ?c' # cs"
        and m: "console (runTimers hu g b n ?s1) = console s @ ?ms @ ms"
        and f: "map fst cs = take (length cs) (drop (Suc (Suc i)) ?chain)"
        and o: "orderly hu b (length ?chain - Suc i) (?c' # cs) (lastOutcome None ms)"
        by auto
      have f': "map fst (?c' # cs) = take (length (?c' # cs)) (drop (Suc i) ?chain)"
        using f next_exists by (simp add: Cons_nth_drop_Suc [symmetric])
      have "Suc (length ?chain - Suc i) = length ?chain - i"
        using next_exists by simp
      with orderly_Cons [OF Suc.prems(6) True o]
      have o': "orderly hu b (length ?chain - i) (?c # ?c' # cs) (lastOutcome None (?ms @ ms))"
        by (simp add: lastOutcome_append advanceMessages_next)
      show ?thesis
        unfolding fin
        using t u c m f' o'
        by (intro exI [of _ "?c' # cs"] exI [of _ "?ms @ ms"]) simp
    qed
  qed
qed

lemma loadURL_starts:
  assumes "URLHandlers s \<noteq> []" and "OriginalURL urlItem \<noteq> blankPage"
    and "b (URLHandlers s ! 0) (URL urlItem) (Source urlItem) = Callback r red"
  shows "fst (loadURL b urlItem upd s) = None"
    and "URLHandlers (snd (loadURL b urlItem upd s)) = URLHandlers s"
    and "currentURLHandler (snd (loadURL b urlItem upd s)) = Some (URLHandlers s ! 0)"
    and "currentURLItem (snd (loadURL b urlItem upd s)) = Some urlItem"
    and "timers (snd (loadURL b urlItem upd s)) = timers s @ [(r, red)]"
    and "handleURLCalls (snd (loadURL b urlItem upd s))
           = handleURLCalls s @ [(URLHandlers s ! 0, URL urlItem, Source urlItem)]"
    and "console (snd (loadURL b urlItem upd s)) = console s"
    and "uncaught (snd (loadURL b urlItem upd s)) = uncaught s"
  using assms
  by (cases "URLHandlers s";
      simp add: loadURL_def callHandleURL_Callback Let_def split: prod.splits)+


lemma dispatch_run:
  fixes s :: "'h Renderer" and g :: "string \<Rightarrow> URLSource \<Rightarrow> URLItem" and upd :: bool
  assumes "URLHandlers s \<noteq> []" and "distinct (URLHandlers s)"
    and "callsBack b (URLHandlers s)" and "distinctCodes hu"
    and "timers s = []" and "OriginalURL urlItem \<noteq> blankPage"
  defines "s' \<equiv> runTimers hu g b (length (URLHandlers s)) (snd (loadURL b urlItem upd s))"
  shows "timers s' = []
    \<and> newCalls s s' \<noteq> []
    \<and> map fst (newCalls s s') = take (length (newCalls s s')) (URLHandlers s)
    \<and> distinct (map fst (newCalls s s'))
    \<and> orderly hu b (length (URLHandlers s)) (newCalls s s') (dispatchOutcome s s')"
proof -
  let ?chain = "URLHandlers s"
  let ?s2 = "snd (loadURL b urlItem upd s)"
  let ?c = "(?chain ! 0, URL urlItem, Source urlItem)"
  from assms(1) have "?chain ! 0 \<in> set ?chain" by simp
  with assms(3) obtain r red where
    reply: "b (?chain ! 0) (URL urlItem) (Source urlItem) = Callback r red"
    by (rule callsBack_reply)
  note st = loadURL_starts [where b = b and s = s and urlItem = urlItem and upd = upd,
      OF assms(1) assms(6) reply]
  have "\<exists>cs ms.
         timers (runTimers hu g b (length ?chain) ?s2) = []
       \<and> uncaught (runTimers hu g b (length ?chain) ?s2) = uncaught ?s2
       \<and> handleURLCalls (runTimers hu g b (length ?chain) ?s2) = handleURLCalls ?s2 @ cs
       \<and> console (runTimers hu g b (length ?chain) ?s2) = console ?s2 @ ms
       \<and> map fst cs = take (length cs) (drop (Suc 0) (URLHandlers ?s2))
       \<and> orderly hu b (length (URLHandlers ?s2) - 0)
            ((URLHandlers ?s2 ! 0, URL urlItem, Source urlItem) # cs) (lastOutcome None ms)"
    using assms(1-5) reply st
    by (intro run_from [of ?s2 0 urlItem r red b hu "length ?chain" g]) simp_all
  then obtain cs ms where
    t: "timers s' = []"
    and c: "handleURLCalls s' = handleURLCalls s @ ?c # cs"
    and m: "console s' = console s @ ms"
    and f: "map fst cs = take (length cs) (drop (Suc 0) ?chain)"
    and o: "orderly hu b (length ?chain) (?c # cs) (lastOutcome None ms)"
    unfolding s'_def using st by auto
  have nc: "newCalls s s' = ?c # cs" by (simp add: newCalls_def c)
  have out: "dispatchOutcome s s' = lastOutcome None ms"
    by (simp add: dispatchOutcome_def newConsole_def m)
  have pre: "map fst (?c # cs) = take (length (?c # cs)) ?chain"
    using f assms(1) by (cases ?chain) simp_all
  then have "distinct (map fst (?c # cs))"
    using assms(2) by (metis distinct_take)
  with t pre o show ?thesis
    unfolding nc out by simp
qed


lemma continue_then_stop:
  assumes pre: "map fst cs = take (length cs) [H1, H2]" and ne: "cs \<noteq> []"
    and l1: "reported b (last cs) = Some r" and l2: "out = Some (outcomeFor hu r)"
    and l3: "advancing hu r \<longrightarrow> length cs = 2"
    and r1: "\<forall>u src. reported b (H1, u, src) = Some (CONTINUE hu)"
    and r2: "\<forall>u src. reported b (H2, u, src) = Some (STOP hu)"
    and dc: "distinctCodes hu"
  shows "map fst cs = [H1, H2] \<and> out = Some Handled"
proof (cases cs)
  case Nil
  with ne show ?thesis by simp
next
  case (Cons c1 cs1)
  obtain u1 src1 where c1: "c1 = (H1, u1, src1)"
    using pre Cons by (cases c1) simp
  show ?thesis
  proof (cases cs1)
    case Nil
    with Cons c1 l1 r1 have "r = CONTINUE hu" by simp
    with l3 Cons Nil show ?thesis by (simp add: advancing_def)
  next
    case (Cons c2 cs2)
    with pre \<open>cs = c1 # cs1\<close> have cs2: "cs2 = []" by (cases cs2) simp_all
    obtain u2 src2 where c2: "c2 = (H2, u2, src2)"
      using pre Cons \<open>cs = c1 # cs1\<close> by (cases c2) simp
    from Cons cs2 c2 \<open>cs = c1 # cs1\<close> l1 r2 have "r = STOP hu" by simp
    with dc l2 have "out = Some Handled"
      by (simp add: outcomeFor_def advancing_def distinctCodes_def)
    with Cons cs2 c1 c2 \<open>cs = c1 # cs1\<close> show ?thesis by simp
  qed
qed

text \<open>
  C3, as stated, fails for a chain that holds a handler object twice: the next handler is
  the one behind the first occurrence of the current one. On the chain \<open>[A, B, A]\<close> with
  handlers that always answer \<open>CONTINUE\<close>, the handler behind the second \<open>A\<close> is \<open>B\<close> again:
  after three callbacks \<open>B\<close> has been called twice, and after seven the dispatch still
  goes round, with a callback pending and no outcome.
\<close>

theorem repeated_handler_cycles:
  "(let s' = runTimers exampleCodes plainURLItem alwaysContinue 3
               (snd (loadURL alwaysContinue (plainURLItem ''http://a'' USER) True cyclicChain));
        s'' = runTimers exampleCodes plainURLItem alwaysContinue 7
               (snd (loadURL alwaysContinue (plainURLItem ''http://a'' USER) True cyclicChain))
    in map fst (newCalls cyclicChain s') = [''A'', ''B'', ''A'', ''B'']
       \<and> timers s' = [(2, None)]
       \<and> dispatchOutcome cyclicChain s' = None
       \<and> map fst (newCalls cyclicChain s'')
            = [''A'', ''B'', ''A'', ''B'', ''A'', ''B'', ''A'', ''B'']
       \<and> timers s'' = [(2, None)]
       \<and> dispatchOutcome cyclicChain s'' = None)"
  by (simp add: cyclicChain_def alwaysContinue_def eval_defs eval_nat_numeral)

text \<open>
  C3, amended. Let a URL that is not the blank page be loaded into a renderer whose chain is not
  empty and holds distinct handler objects, each of which calls back, and let no callback
  be pending. After at most as many callbacks as the chain has handlers, no callback is
  pending, and the handlers called are an initial segment of the chain, in chain order
  and each once. Every call but the last was answered with \<open>NONE\<close> or \<open>CONTINUE\<close>. The
  answer to the last call gives the outcome: \<open>Exhausted\<close> for \<open>NONE\<close> or \<open>CONTINUE\<close>, and
  then the whole chain was called; \<open>Handled\<close> for \<open>STOP\<close>; \<open>Aborted\<close> otherwise. In
  particular, when the chain is \<open>[H1, H2]\<close>, \<open>H1\<close> always answers \<open>CONTINUE\<close> and \<open>H2\<close> always
  \<open>STOP\<close>, the calls are to \<open>H1\<close> and then \<open>H2\<close> and the outcome is \<open>Handled\<close>.
\<close>

theorem dispatch_follows_chain:
  fixes s :: "'h Renderer" and g :: "string \<Rightarrow> URLSource \<Rightarrow> URLItem" and upd :: bool
  assumes "URLHandlers s \<noteq> []" and "distinct (URLHandlers s)"
    and "callsBack b (URLHandlers s)" and "distinctCodes hu"
    and "timers s = []" and "OriginalURL urlItem \<noteq> blankPage"
  defines "s' \<equiv> runTimers hu g b (length (URLHandlers s)) (snd (loadURL b urlItem upd s))"
  shows "timers s' = []
    \<and> newCalls s s' \<noteq> []
    \<and> map fst (newCalls s s') = take (length (newCalls s s')) (URLHandlers s)
    \<and> distinct (map fst (newCalls s s'))
    \<and> (\<forall>c\<in>set (butlast (newCalls s s')). \<exists>r. reported b c = Some r \<and> advancing hu r)
    \<and> (\<exists>r. reported b (last (newCalls s s')) = Some r
           \<and> dispatchOutcome s s' = Some (outcomeFor hu r)
           \<and> (advancing hu r \<longrightarrow> length (newCalls s s') = length (URLHandlers s)))
    \<and> (\<forall>H1 H2. URLHandlers s = [H1, H2]
           \<and> (\<forall>u src. reported b (H1, u, src) = Some (CONTINUE hu))
           \<and> (\<forall>u src. reported b (H2, u, src) = Some (STOP hu))
           \<longrightarrow> map fst (newCalls s s') = [H1, H2] \<and> dispatchOutcome s s' = Some Handled)"
proof -
  note run = dispatch_run [OF assms(1-6), of g upd, folded s'_def]
  then have o: "orderly hu b (length (URLHandlers s)) (newCalls s s') (dispatchOutcome s s')"
    by simp
  then obtain r where
    l1: "reported b (last (newCalls s s')) = Some r"
    and l2: "dispatchOutcome s s' = Some (outcomeFor hu r)"
    and l3: "advancing hu r \<longrightarrow> length (newCalls s s') = length (URLHandlers s)"
    by (auto simp: orderly_def)
  have "map fst (newCalls s s') = [H1, H2] \<and> dispatchOutcome s s' = Some Handled"
    if c: "URLHandlers s = [H1, H2]"
      and r1: "\<forall>u src. reported b (H1, u, src) = Some (CONTINUE hu)"
      and r2: "\<forall>u src. reported b (H2, u, src) = Some (STOP hu)"
    for H1 H2
  proof (rule continue_then_stop [OF _ _ l1 l2 _ r1 r2 assms(4)])
    show "map fst (newCalls s s') = take (length (newCalls s s')) [H1, H2]"
      using run c by simp
    show "newCalls s s' \<noteq> []" using run by simp
    show "advancing hu r \<longrightarrow> length (newCalls s s') = 2" using l3 c by simp
  qed
  with run o show ?thesis
    unfolding orderly_def by blast
qed

theorem dispatch_follows_chain_witness:
  "(let s' = runTimers exampleCodes plainURLItem continueThenStop 2
               (snd (loadURL continueThenStop (plainURLItem ''http://a'' USER) True twoHandlers))
    in timers s' = []
       \<and> newCalls twoHandlers s' = [(''H1'', ''http://a'', USER), (''H2'', ''http://a'', USER)]
       \<and> dispatchOutcome twoHandlers s' = Some Handled)"
  using dispatch_follows_chain [of twoHandlers continueThenStop exampleCodes
      "plainURLItem ''http://a'' USER" plainURLItem True]
  by (simp add: eval_defs numeral_2_eq_2)

subsection \<open>Redirects\<close>

lemma runTimers_one_calls:
  "timers s = (r, red) # rest \<Longrightarrow>
   handleURLCalls (runTimers hu g b (Suc 0) s)
   = handleURLCalls (snd (doHandleURLCallback hu g b r red (s\<lparr>timers := rest\<rparr>)))"
  by (auto split: prod.splits option.splits)


text \<open>
  C1, as stated, fails: the URL item for a redirect is built with \<open>URLSource.PAGE\<close>, so the
  next handler is called with the source \<open>PAGE\<close>, not with a source of its own for
  redirects.
\<close>

theorem redirect_source_is_PAGE:
  "(let s' = runTimers exampleCodes plainURLItem redirectThenStop 1
               (snd (loadURL redirectThenStop (plainURLItem ''http://a'' USER) True twoHandlers));
        call = last (newCalls twoHandlers s')
    in fst call = ''H2'' \<and> fst (snd call) = ''http://r'' \<and> snd (snd call) = PAGE
       \<and> snd (snd call) \<noteq> HANDLER_REDIRECT)"
  by (simp add: eval_defs)

text \<open>
  C1, amended. For a chain \<open>[H1, H2]\<close> of two handler objects and a URL other than the
  blank page: when \<open>H1\<close> answers \<open>NONE\<close> or \<open>CONTINUE\<close> with a non-empty redirect URL \<open>R\<close>, the
  first callback calls \<open>H2\<close> with the URL and the source of the item \<open>getURLItem(R, PAGE)\<close>.
\<close>

theorem redirect_reaches_next_handler:
  assumes "URLHandlers s = [H1, H2]" and "H1 \<noteq> H2" and "timers s = []"
    and "OriginalURL urlItem \<noteq> blankPage"
    and "b H1 (URL urlItem) (Source urlItem) = Callback r (Some R)" and "R \<noteq> []"
    and "advancing hu r" and "distinctCodes hu"
  shows "newCalls s (runTimers hu g b 1 (snd (loadURL b urlItem upd s)))
         = [(H1, URL urlItem, Source urlItem), (H2, URL (g R PAGE), Source (g R PAGE))]"
proof -
  let ?s2 = "snd (loadURL b urlItem upd s)"
  from assms have reply: "b (URLHandlers s ! 0) (URL urlItem) (Source urlItem) = Callback r (Some R)"
    by simp
  from assms(1) have ne: "URLHandlers s \<noteq> []" by simp
  note st = loadURL_starts [where b = b and s = s and urlItem = urlItem and upd = upd,
      OF ne assms(4) reply]
  from assms(7,8) have "r \<noteq> ERROR hu" by (auto simp: advancing_def distinctCodes_def)
  with st assms(1,2,3,6,7)
  have "handleURLCalls (snd (doHandleURLCallback hu g b r (Some R) (?s2\<lparr>timers := []\<rparr>)))
        = handleURLCalls s @ [(H1, URL urlItem, Source urlItem), (H2, URL (g R PAGE), Source (g R PAGE))]"
    by (auto simp: doHandleURLCallback_def tryBlock_def catchBlock_def finallyBlock_def
        advancing_def proceedWithNextHandler_def consoleWrite_def callHandleURL_def
        handleURLCallback_def elementAt_def truthyURL_def Let_def
        split: HandlerReply.splits)
  moreover from st assms(3) have "timers ?s2 = (r, Some R) # []" by simp
  ultimately show ?thesis
    by (simp add: newCalls_def runTimers_one_calls del: runTimers.simps)
qed

theorem redirect_reaches_next_handler_witness:
  "newCalls twoHandlers
     (runTimers exampleCodes plainURLItem redirectThenStop 1
        (snd (loadURL redirectThenStop (plainURLItem ''http://a'' USER) True twoHandlers)))
   = [(''H1'', ''http://a'', USER), (''H2'', ''http://r'', PAGE)]"
  using redirect_reaches_next_handler [of twoHandlers "''H1''" "''H2''"
      "plainURLItem ''http://a'' USER" redirectThenStop 1 "''http://r''" exampleCodes
      plainURLItem True]
  by (simp add: twoHandlers_def redirectThenStop_def newRenderer_def exampleCodes_def
      plainURLItem_def blankPage_def advancing_def distinctCodes_def)

section \<open>Properties of the settings module\<close>












text \<open>The definitions that evaluate \<open>getSettings\<close> on a concrete file.\<close>

lemmas settings_eval = getSettings_def getSettings_part_000_def getField_def nullish_def
  fixWin32MenuState_def normalizedSettings_def normalizeByType_def settingOf_def
  exampleFiles_def exampleSettingsFile_def trim_def leading_def whiteSpaces_def
  replaceAll_def navigatorUserAgent_def Let_def




text \<open>
  The value that the amended statement leaves out: for an absent \<open>ToggleDevTools\<close> the
  earlier version stores \<open>ctrl+alt+dx\<close>, where its default settings have \<open>ctrl+alt+d\<close>.
\<close>

lemma getSettings_part_000_ToggleDevTools:
  "(let r = getSettings_part_000 exampleFiles normalizeByType None ''settings.json''
    in map_option (\<lambda>shortCuts. field shortCuts ''ToggleDevTools'') (settingOf r ''ShortCuts'')
         = Some (JString ''ctrl+alt+dx'')
       \<and> field (field (getDefaultSettings_part_000 None) ''ShortCuts'') ''ToggleDevTools''
         = JString ''ctrl+alt+d'')"
  by (simp add: settings_eval getDefaultSettings_part_000_def)

end
